theory Spec2Isabelle
  imports Complex_Main
begin

section \<open>Strings and characters\<close>

text \<open>
  Texts are modelled as \<^typ>\<open>string\<close>, one \<^typ>\<open>char\<close> per code unit, with the ASCII
  reading of case, white space and word characters; code units beyond ASCII have no case,
  are no white space and are no word characters.
\<close>

definition charCode :: "char \<Rightarrow> nat" where
  "charCode c = of_char c"

definition isDigit :: "char \<Rightarrow> bool" where
  "isDigit c = (48 \<le> charCode c \<and> charCode c \<le> 57)"

definition isUpper :: "char \<Rightarrow> bool" where
  "isUpper c = (65 \<le> charCode c \<and> charCode c \<le> 90)"

definition isLower :: "char \<Rightarrow> bool" where
  "isLower c = (97 \<le> charCode c \<and> charCode c \<le> 122)"

definition isSpace :: "char \<Rightarrow> bool" where
  "isSpace c = (charCode c = 32 \<or> (9 \<le> charCode c \<and> charCode c \<le> 13))"

definition isLineEnd :: "char \<Rightarrow> bool" where
  "isLineEnd c = (charCode c = 10 \<or> charCode c = 13)"

definition isWordChar :: "char \<Rightarrow> bool" where
  "isWordChar c = (isDigit c \<or> isUpper c \<or> isLower c \<or> charCode c = 95)"

text \<open>An upper-case letter and its lower-case letter differ by 32, which is bit 5.\<close>

definition toLower :: "char \<Rightarrow> char" where
  "toLower c = (if isUpper c
                then (case c of Char b0 b1 b2 b3 b4 b5 b6 b7 \<Rightarrow> Char b0 b1 b2 b3 b4 True b6 b7)
                else c)"

definition toUpper :: "char \<Rightarrow> char" where
  "toUpper c = (if isLower c
                then (case c of Char b0 b1 b2 b3 b4 b5 b6 b7 \<Rightarrow> Char b0 b1 b2 b3 b4 False b6 b7)
                else c)"

definition toLowerCase :: "string \<Rightarrow> string" where
  "toLowerCase s = map toLower s"

definition trim :: "string \<Rightarrow> string" where
  "trim s = rev (dropWhile isSpace (rev (dropWhile isSpace s)))"

fun startsWith :: "string \<Rightarrow> string \<Rightarrow> bool" where
  "startsWith s [] = True"
| "startsWith [] (a # w) = False"
| "startsWith (c # s) (a # w) = (c = a \<and> startsWith s w)"

fun includesStr :: "string \<Rightarrow> string \<Rightarrow> bool" where
  "includesStr [] w = (w = [])"
| "includesStr (c # s) w = (startsWith (c # s) w \<or> includesStr s w)"

text \<open>\<open>[...new Set(xs)]\<close>: the first occurrence of every element, in order.\<close>

fun dedupe :: "'a list \<Rightarrow> 'a list \<Rightarrow> 'a list" where
  "dedupe seen [] = []"
| "dedupe seen (x # xs) = (if x \<in> set seen then dedupe seen xs else x # dedupe (x # seen) xs)"

definition digitVal :: "char \<Rightarrow> int" where
  "digitVal c = int (charCode c) - 48"

definition digitsVal :: "string \<Rightarrow> int" where
  "digitsVal ds = foldl (\<lambda>n c. 10 * n + digitVal c) 0 ds"

text \<open>
  \<open>parseInt\<close> on the strings the service hands it (runs of decimal digits, or a word
  without any digit): leading white space, an optional sign, then the longest run of
  decimal digits; \<open>None\<close> is NaN.
\<close>

definition parseInt :: "string \<Rightarrow> int option" where
  "parseInt s =
     (let t = dropWhile isSpace s;
          (neg, u) = (case t of [] \<Rightarrow> (False, [])
                      | c # r \<Rightarrow> if c = CHR ''-'' then (True, r)
                                 else if c = CHR ''+'' then (False, r) else (False, t));
          ds = takeWhile isDigit u
      in if ds = [] then None else Some (if neg then - digitsVal ds else digitsVal ds))"

text \<open>\<open>parseFloat\<close> on a capture of \<open>\d+\.?\d*\<close>, as an exact decimal.\<close>

definition parseFloat :: "string \<Rightarrow> real" where
  "parseFloat s =
     (let ip = takeWhile isDigit s; r = dropWhile isDigit s;
          fp = (case r of [] \<Rightarrow> [] | c # f \<Rightarrow> if c = CHR ''.'' then takeWhile isDigit f else [])
      in real_of_int (digitsVal ip) + real_of_int (digitsVal fp) / 10 ^ length fp)"

section \<open>Regular expressions\<close>

text \<open>
  The regular expressions of the service, with the backtracking semantics of the
  platform: alternatives in order, greedy and lazy repetition, an iteration that consumes
  nothing is rejected, captures inside a repeated group are reset at every iteration.
  \<open>rxm ic r s\<close> lists the states in which a match of \<open>r\<close> started in \<open>s\<close> can end, in the
  order the backtracking matcher tries them; \<open>ic\<close> is the \<open>i\<close> flag.
\<close>

datatype cls = Dot | DigitC | SpaceC | UpperC | LowerC | Ch char

fun inCls :: "cls \<Rightarrow> char \<Rightarrow> bool" where
  "inCls Dot c = (\<not> isLineEnd c)"
| "inCls DigitC c = isDigit c"
| "inCls SpaceC c = isSpace c"
| "inCls UpperC c = isUpper c"
| "inCls LowerC c = isLower c"
| "inCls (Ch a) c = (a = c)"

definition inSet :: "bool \<Rightarrow> cls list \<Rightarrow> char \<Rightarrow> bool" where
  "inSet ic cs c =
     (if ic then list_ex (\<lambda>k. inCls k (toUpper c) \<or> inCls k (toLower c)) cs
      else list_ex (\<lambda>k. inCls k c) cs)"

datatype regex =
    REps
  | RLit string
  | RSet bool "cls list"
  | RSeq regex regex
  | RAlt regex regex
  | RStar regex
  | RLazy regex
  | ROpt regex
  | RGrp nat regex
  | RWordB
  | REos

record mstate =
  pre :: string
  post :: string
  caps :: "(nat \<times> string) list"

fun groups :: "regex \<Rightarrow> nat list" where
  "groups (RSeq a b) = groups a @ groups b"
| "groups (RAlt a b) = groups a @ groups b"
| "groups (RStar a) = groups a"
| "groups (RLazy a) = groups a"
| "groups (ROpt a) = groups a"
| "groups (RGrp n a) = n # groups a"
| "groups _ = []"

definition clearCaps :: "regex \<Rightarrow> mstate \<Rightarrow> mstate" where
  "clearCaps r s = s\<lparr>caps := filter (\<lambda>(n, _). n \<notin> set (groups r)) (caps s)\<rparr>"

fun litMatch :: "bool \<Rightarrow> string \<Rightarrow> string \<Rightarrow> string \<Rightarrow> (string \<times> string) option" where
  "litMatch ic [] p s = Some (p, s)"
| "litMatch ic (a # w) p [] = None"
| "litMatch ic (a # w) p (c # s) =
     (if (if ic then toUpper a = toUpper c else a = c) then litMatch ic w (c # p) s else None)"

definition atBoundary :: "mstate \<Rightarrow> bool" where
  "atBoundary s = ((case pre s of [] \<Rightarrow> False | c # _ \<Rightarrow> isWordChar c)
                   \<noteq> (case post s of [] \<Rightarrow> False | c # _ \<Rightarrow> isWordChar c))"

function rxm :: "bool \<Rightarrow> regex \<Rightarrow> mstate \<Rightarrow> mstate list" where
  "rxm ic REps s = [s]"
| "rxm ic (RLit w) s = (case litMatch ic w (pre s) (post s) of
                        None \<Rightarrow> [] | Some (p, r) \<Rightarrow> [s\<lparr>pre := p, post := r\<rparr>])"
| "rxm ic (RSet neg cs) s = (case post s of [] \<Rightarrow> []
      | c # r \<Rightarrow> if inSet ic cs c \<noteq> neg then [s\<lparr>pre := c # pre s, post := r\<rparr>] else [])"
| "rxm ic (RSeq a b) s = concat (map (rxm ic b) (rxm ic a s))"
| "rxm ic (RAlt a b) s = rxm ic a s @ rxm ic b s"
| "rxm ic (RStar a) s =
     concat (map (\<lambda>t. if length (post t) < length (post s) then rxm ic (RStar a) t else [])
                 (rxm ic a (clearCaps a s))) @ [s]"
| "rxm ic (RLazy a) s =
     s # concat (map (\<lambda>t. if length (post t) < length (post s) then rxm ic (RLazy a) t else [])
                     (rxm ic a (clearCaps a s)))"
| "rxm ic (ROpt a) s =
     filter (\<lambda>t. length (post t) < length (post s)) (rxm ic a (clearCaps a s)) @ [s]"
| "rxm ic (RGrp n a) s =
     map (\<lambda>t. t\<lparr>caps := (n, take (length (post s) - length (post t)) (post s))
                          # filter (\<lambda>(k, _). k \<noteq> n) (caps t)\<rparr>) (rxm ic a s)"
| "rxm ic RWordB s = (if atBoundary s then [s] else [])"
| "rxm ic REos s = (if post s = [] then [s] else [])"
  by pat_completeness auto
termination
  by (relation "measures [\<lambda>(ic, r, s). size r, \<lambda>(ic, r, s). length (post s)]")
     (auto simp: clearCaps_def)

text \<open>Notation of the patterns: \<open>a+\<close>, \<open>a+?\<close>, \<open>a{1,2}\<close>, sequences, alternatives of words.\<close>

definition RPlus :: "regex \<Rightarrow> regex" where
  "RPlus a = RSeq a (RStar a)"

definition RLazyPlus :: "regex \<Rightarrow> regex" where
  "RLazyPlus a = RSeq a (RLazy a)"

fun seqs :: "regex list \<Rightarrow> regex" where
  "seqs [] = REps"
| "seqs [a] = a"
| "seqs (a # as) = RSeq a (seqs as)"

fun alts :: "regex list \<Rightarrow> regex" where
  "alts [] = REps"
| "alts [a] = a"
| "alts (a # as) = RAlt a (alts as)"

definition anyOf :: "string list \<Rightarrow> regex" where
  "anyOf ws = alts (map RLit ws)"

definition rDigit :: regex where "rDigit = RSet False [DigitC]"
definition rDigits :: regex where "rDigits = RPlus rDigit"
definition rDigit12 :: regex where "rDigit12 = RSeq rDigit (ROpt rDigit)"
definition rDigit2 :: regex where "rDigit2 = RSeq rDigit rDigit"
definition rDigit24 :: regex where "rDigit24 = seqs [rDigit, rDigit, ROpt rDigit, ROpt rDigit]"
definition rSp0 :: regex where "rSp0 = RStar (RSet False [SpaceC])"
definition rSp1 :: regex where "rSp1 = RPlus (RSet False [SpaceC])"
definition rAnyStar :: regex where "rAnyStar = RStar (RSet False [Dot])"
definition rAmPm :: regex where "rAmPm = anyOf [''am'', ''pm'']"

text \<open>A match: its index, \<open>match[0]\<close> and the captures \<open>match[n]\<close> (absent: undefined).\<close>

record rmatch =
  m_index :: nat
  m_text :: string
  m_caps :: "(nat \<times> string) list"

definition grp :: "rmatch \<Rightarrow> nat \<Rightarrow> string option" where
  "grp m n = map_of (m_caps m) n"

definition mkMatch :: "string \<Rightarrow> string \<Rightarrow> mstate \<Rightarrow> rmatch" where
  "mkMatch p s t =
     \<lparr>m_index = length p, m_text = take (length s - length (post t)) s, m_caps = caps t\<rparr>"

definition matchAt :: "bool \<Rightarrow> regex \<Rightarrow> string \<Rightarrow> string \<Rightarrow> rmatch option" where
  "matchAt ic r p s = (case rxm ic r \<lparr>pre = p, post = s, caps = []\<rparr> of
                         [] \<Rightarrow> None | t # _ \<Rightarrow> Some (mkMatch p s t))"

text \<open>\<open>r.exec(s)\<close>, \<open>s.match(r)\<close> without the \<open>g\<close> flag: the leftmost match.\<close>

fun execFrom :: "bool \<Rightarrow> regex \<Rightarrow> string \<Rightarrow> string \<Rightarrow> rmatch option" where
  "execFrom ic r p [] = matchAt ic r p []"
| "execFrom ic r p (c # s) = (case matchAt ic r p (c # s) of
                               None \<Rightarrow> execFrom ic r (c # p) s | Some m \<Rightarrow> Some m)"

definition rxExec :: "bool \<Rightarrow> regex \<Rightarrow> string \<Rightarrow> rmatch option" where
  "rxExec ic r s = execFrom ic r [] s"

definition rxTest :: "bool \<Rightarrow> regex \<Rightarrow> string \<Rightarrow> bool" where
  "rxTest ic r s = (rxExec ic r s \<noteq> None)"

text \<open>
  The \<open>g\<close> flag (\<open>matchAll\<close>, the \<open>exec\<close> loop, \<open>replace\<close>): every match, the search
  resuming where the last match ended, one further on after an empty match. \<open>k\<close> counts
  the characters of the last match still to be passed.
\<close>

fun scanAll :: "bool \<Rightarrow> regex \<Rightarrow> string \<Rightarrow> string \<Rightarrow> nat \<Rightarrow> rmatch list" where
  "scanAll ic r p [] k =
     (if k = 0 then (case matchAt ic r p [] of None \<Rightarrow> [] | Some m \<Rightarrow> [m]) else [])"
| "scanAll ic r p (c # s) k =
     (if 0 < k then scanAll ic r (c # p) s (k - 1)
      else case matchAt ic r p (c # s) of
             None \<Rightarrow> scanAll ic r (c # p) s 0
           | Some m \<Rightarrow> m # scanAll ic r (c # p) s (length (m_text m) - 1))"

definition matchAll :: "bool \<Rightarrow> regex \<Rightarrow> string \<Rightarrow> rmatch list" where
  "matchAll ic r s = scanAll ic r [] s 0"

text \<open>\<open>s.replace(r, '')\<close> with the \<open>g\<close> flag.\<close>

fun removeFrom :: "bool \<Rightarrow> regex \<Rightarrow> string \<Rightarrow> string \<Rightarrow> nat \<Rightarrow> string" where
  "removeFrom ic r p [] k = []"
| "removeFrom ic r p (c # s) k =
     (if 0 < k then removeFrom ic r (c # p) s (k - 1)
      else case matchAt ic r p (c # s) of
             None \<Rightarrow> c # removeFrom ic r (c # p) s 0
           | Some m \<Rightarrow> (if m_text m = [] then c # removeFrom ic r (c # p) s 0
                        else removeFrom ic r (c # p) s (length (m_text m) - 1)))"

definition removeAll_rx :: "bool \<Rightarrow> regex \<Rightarrow> string \<Rightarrow> string" where
  "removeAll_rx ic r s = removeFrom ic r [] s 0"

text \<open>
  \<open>s.split(r)\<close> for a pattern without captures: \<open>cur\<close> is the piece since the last
  separator (reversed); a match that ends where the piece starts is passed over.
\<close>

fun splitFrom :: "bool \<Rightarrow> regex \<Rightarrow> string \<Rightarrow> string \<Rightarrow> string \<Rightarrow> nat \<Rightarrow> string list" where
  "splitFrom ic r p [] cur k = [rev cur]"
| "splitFrom ic r p (c # s) cur k =
     (if 0 < k then splitFrom ic r (c # p) s [] (k - 1)
      else case matchAt ic r p (c # s) of
             None \<Rightarrow> splitFrom ic r (c # p) s (c # cur) 0
           | Some m \<Rightarrow>
               (if m_text m = [] then
                  (if cur = [] then splitFrom ic r (c # p) s [c] 0
                   else rev cur # splitFrom ic r (c # p) s [c] 0)
                else rev cur # splitFrom ic r (c # p) s [] (length (m_text m) - 1)))"

definition split_rx :: "bool \<Rightarrow> regex \<Rightarrow> string \<Rightarrow> string list" where
  "split_rx ic r s = (if s = [] then (if matchAt ic r [] [] = None then [[]] else [])
                      else splitFrom ic r [] s [] 0)"

section \<open>Numbers\<close>

text \<open>
  A number of the platform is NaN, one of the two infinities, or a finite value. A finite
  value is taken as an exact real: the rounding of doubles is not modelled.
\<close>

datatype Number = NaN | NegInfinity | Finite real | PosInfinity

text \<open>The numbers that are falsy in a condition are 0 and NaN.\<close>

definition truthy :: "Number \<Rightarrow> bool" where
  "truthy x = (x \<noteq> NaN \<and> x \<noteq> Finite 0)"

text \<open>The comparisons \<open>x < n\<close>, \<open>x > n\<close> and \<open>n >= x\<close> with an integer \<open>n\<close>; each is false
  when \<open>x\<close> is NaN.\<close>

fun lessThanInt :: "Number \<Rightarrow> int \<Rightarrow> bool" where
  "lessThanInt NaN n = False"
| "lessThanInt NegInfinity n = True"
| "lessThanInt (Finite x) n = (x < real_of_int n)"
| "lessThanInt PosInfinity n = False"

fun greaterThanInt :: "Number \<Rightarrow> int \<Rightarrow> bool" where
  "greaterThanInt NaN n = False"
| "greaterThanInt NegInfinity n = False"
| "greaterThanInt (Finite x) n = (real_of_int n < x)"
| "greaterThanInt PosInfinity n = True"

fun intAtLeast :: "int \<Rightarrow> Number \<Rightarrow> bool" where
  "intAtLeast n NaN = False"
| "intAtLeast n NegInfinity = True"
| "intAtLeast n (Finite x) = (x \<le> real_of_int n)"
| "intAtLeast n PosInfinity = False"

text \<open>\<open>x * 7\<close>.\<close>

fun times7 :: "Number \<Rightarrow> Number" where
  "times7 (Finite x) = Finite (x * 7)"
| "times7 x = x"

text \<open>The number \<open>parseInt\<close> returns, and the number a weekday or an index is.\<close>

definition numberOf :: "int option \<Rightarrow> Number" where
  "numberOf n = (case n of None \<Rightarrow> NaN | Some k \<Rightarrow> Finite (real_of_int k))"

text \<open>\<open>ToIntegerOrInfinity\<close> of a finite number: the fraction is dropped, towards 0.\<close>

definition ToIntegerOrInfinity :: "real \<Rightarrow> int" where
  "ToIntegerOrInfinity x = (if 0 \<le> x then \<lfloor>x\<rfloor> else \<lceil>x\<rceil>)"

section \<open>Dates\<close>

text \<open>
  A valid date is its time value in milliseconds on the local time line (the zone's offset
  from UTC is taken as constant); \<open>InvalidDate\<close> is the date whose time value is NaN. The
  calendar follows the platform's specification: day number, year of a day, month and date
  within the year, \<open>MakeDay\<close> with its carry of months into years and of dates into months.
  The bound of the representable time values is not modelled.
\<close>

datatype Date = InvalidDate | Instant int

definition msPerDay :: int where
  "msPerDay = 86400000"

definition Day :: "int \<Rightarrow> int" where
  "Day t = t div msPerDay"

definition TimeWithinDay :: "int \<Rightarrow> int" where
  "TimeWithinDay t = t mod msPerDay"

definition InLeapYear :: "int \<Rightarrow> bool" where
  "InLeapYear y = (y mod 4 = 0 \<and> (y mod 100 \<noteq> 0 \<or> y mod 400 = 0))"

definition DayFromYear :: "int \<Rightarrow> int" where
  "DayFromYear y = 365 * (y - 1970) + (y - 1969) div 4 - (y - 1901) div 100 + (y - 1601) div 400"

text \<open>The year of a day: the largest \<open>y\<close> with \<open>DayFromYear y \<le> d\<close>, from an estimate that is
  off by one at most.\<close>

definition YearFromDay :: "int \<Rightarrow> int" where
  "YearFromDay d =
     (let y0 = 1970 + (400 * d) div 146097
      in if d < DayFromYear y0 then y0 - 1
         else if DayFromYear (y0 + 1) \<le> d then y0 + 1 else y0)"

definition DayWithinYear :: "int \<Rightarrow> int" where
  "DayWithinYear d = d - DayFromYear (YearFromDay d)"

text \<open>The day within the year on which month \<open>m\<close> (0 to 11) starts.\<close>

definition monthStart :: "bool \<Rightarrow> int \<Rightarrow> int" where
  "monthStart lp m =
     (let l = (if lp then 1 else 0)
      in if m \<le> 0 then 0 else if m = 1 then 31 else if m = 2 then 59 + l
         else if m = 3 then 90 + l else if m = 4 then 120 + l else if m = 5 then 151 + l
         else if m = 6 then 181 + l else if m = 7 then 212 + l else if m = 8 then 243 + l
         else if m = 9 then 273 + l else if m = 10 then 304 + l else 334 + l)"

definition MonthFromDay :: "int \<Rightarrow> int" where
  "MonthFromDay d =
     (let lp = InLeapYear (YearFromDay d); w = DayWithinYear d
      in if w < monthStart lp 1 then 0 else if w < monthStart lp 2 then 1
         else if w < monthStart lp 3 then 2 else if w < monthStart lp 4 then 3
         else if w < monthStart lp 5 then 4 else if w < monthStart lp 6 then 5
         else if w < monthStart lp 7 then 6 else if w < monthStart lp 8 then 7
         else if w < monthStart lp 9 then 8 else if w < monthStart lp 10 then 9
         else if w < monthStart lp 11 then 10 else 11)"

definition DateFromDay :: "int \<Rightarrow> int" where
  "DateFromDay d =
     DayWithinYear d - monthStart (InLeapYear (YearFromDay d)) (MonthFromDay d) + 1"

definition MakeDay :: "int \<Rightarrow> int \<Rightarrow> int \<Rightarrow> int" where
  "MakeDay y m dt =
     (let ym = y + m div 12; mn = m mod 12
      in DayFromYear ym + monthStart (InLeapYear ym) mn + dt - 1)"

definition MakeTime :: "int \<Rightarrow> int \<Rightarrow> int \<Rightarrow> int \<Rightarrow> int" where
  "MakeTime h m s ms = h * 3600000 + m * 60000 + s * 1000 + ms"

definition MakeDate :: "int \<Rightarrow> int \<Rightarrow> int" where
  "MakeDate day time = day * msPerDay + time"

subsection \<open>The methods of a valid date, on its time value\<close>

definition tvFullYear :: "int \<Rightarrow> int" where
  "tvFullYear t = YearFromDay (Day t)"

definition tvMonth :: "int \<Rightarrow> int" where
  "tvMonth t = MonthFromDay (Day t)"

definition tvDate :: "int \<Rightarrow> int" where
  "tvDate t = DateFromDay (Day t)"

definition tvDay :: "int \<Rightarrow> int" where
  "tvDay t = (Day t + 4) mod 7"

definition tvHours :: "int \<Rightarrow> int" where
  "tvHours t = TimeWithinDay t div 3600000"

definition tvMinutes :: "int \<Rightarrow> int" where
  "tvMinutes t = (TimeWithinDay t div 60000) mod 60"

definition tvSeconds :: "int \<Rightarrow> int" where
  "tvSeconds t = (TimeWithinDay t div 1000) mod 60"

definition tvMilliseconds :: "int \<Rightarrow> int" where
  "tvMilliseconds t = TimeWithinDay t mod 1000"

definition tvSetHours :: "int \<Rightarrow> int \<Rightarrow> int \<Rightarrow> int \<Rightarrow> int \<Rightarrow> int" where
  "tvSetHours t h m s ms = MakeDate (Day t) (MakeTime h m s ms)"

definition tvSetHour :: "int \<Rightarrow> int \<Rightarrow> int" where
  "tvSetHour t h = MakeDate (Day t) (MakeTime h (tvMinutes t) (tvSeconds t) (tvMilliseconds t))"

definition tvSetMinutes :: "int \<Rightarrow> int \<Rightarrow> int" where
  "tvSetMinutes t m = MakeDate (Day t) (MakeTime (tvHours t) m (tvSeconds t) (tvMilliseconds t))"

definition tvSetDate :: "int \<Rightarrow> int \<Rightarrow> int" where
  "tvSetDate t dt = MakeDate (MakeDay (tvFullYear t) (tvMonth t) dt) (TimeWithinDay t)"

definition tvSetMonth :: "int \<Rightarrow> int \<Rightarrow> int" where
  "tvSetMonth t m = MakeDate (MakeDay (tvFullYear t) m (tvDate t)) (TimeWithinDay t)"

definition tvSetFullYear :: "int \<Rightarrow> int \<Rightarrow> int" where
  "tvSetFullYear t y = MakeDate (MakeDay y (tvMonth t) (tvDate t)) (TimeWithinDay t)"

text \<open>\<open>new Date(year, month, date, h, m, s, ms)\<close>: years 0 to 99 stand for 1900 to 1999.\<close>

definition newDate :: "int \<Rightarrow> int \<Rightarrow> int \<Rightarrow> int \<Rightarrow> int \<Rightarrow> int \<Rightarrow> int \<Rightarrow> int" where
  "newDate y m dt h mi s ms =
     MakeDate (MakeDay (if 0 \<le> y \<and> y \<le> 99 then 1900 + y else y) m dt) (MakeTime h mi s ms)"

subsection \<open>dateHelpers.addTime\<close>

datatype TimeUnit = Minutes | Hours | Days | Weeks | Months | Years

text \<open>The amount is a finite number; a setter drops the fraction of the sum it is given.\<close>

fun tvAddTime :: "int \<Rightarrow> real \<Rightarrow> TimeUnit \<Rightarrow> int" where
  "tvAddTime t amount Minutes =
     tvSetMinutes t (ToIntegerOrInfinity (real_of_int (tvMinutes t) + amount))"
| "tvAddTime t amount Hours =
     tvSetHour t (ToIntegerOrInfinity (real_of_int (tvHours t) + amount))"
| "tvAddTime t amount Days =
     tvSetDate t (ToIntegerOrInfinity (real_of_int (tvDate t) + amount))"
| "tvAddTime t amount Weeks =
     tvSetDate t (ToIntegerOrInfinity (real_of_int (tvDate t) + amount * 7))"
| "tvAddTime t amount Months =
     tvSetMonth t (ToIntegerOrInfinity (real_of_int (tvMonth t) + amount))"
| "tvAddTime t amount Years =
     tvSetFullYear t (ToIntegerOrInfinity (real_of_int (tvFullYear t) + amount))"

subsection \<open>Dates that may be invalid\<close>

text \<open>A method of an invalid date yields NaN, a setter leaves it invalid, a setter given
  a number that is not finite makes the date invalid, and every comparison with an invalid
  date is false.\<close>

fun addTime :: "Date \<Rightarrow> Number \<Rightarrow> TimeUnit \<Rightarrow> Date" where
  "addTime (Instant t) (Finite amount) u = Instant (tvAddTime t amount u)"
| "addTime d amount u = InvalidDate"

fun setHours :: "Date \<Rightarrow> int option \<Rightarrow> int option \<Rightarrow> int \<Rightarrow> int \<Rightarrow> Date" where
  "setHours (Instant t) (Some h) (Some m) s ms = Instant (tvSetHours t h m s ms)"
| "setHours _ _ _ s ms = InvalidDate"

fun getDay :: "Date \<Rightarrow> int option" where
  "getDay InvalidDate = None"
| "getDay (Instant t) = Some (tvDay t)"

fun dateLess :: "Date \<Rightarrow> Date \<Rightarrow> bool" where
  "dateLess (Instant a) (Instant b) = (a < b)"
| "dateLess _ _ = False"

fun dateLeq :: "Date \<Rightarrow> Date \<Rightarrow> bool" where
  "dateLeq (Instant a) (Instant b) = (a \<le> b)"
| "dateLeq _ _ = False"

section \<open>The types of the service\<close>

datatype CommandIntent =
    CREATE_EVENT | UPDATE_EVENT | DELETE_EVENT | LIST_EVENTS | QUERY_SCHEDULE
  | ADD_CONTACT | QUERY_CONTACT | SET_REMINDER | FIND_TIME | FIND_FREE_TIME
  | ADD_ATTENDEE | CHECK_CONFLICTS | UNKNOWN

text \<open>The members of the enumeration \<open>RecurrenceFrequency\<close> are the strings of their
  names; the field that holds one is not checked and can hold any string.\<close>

definition DAILY :: string where
  "DAILY = ''DAILY''"

definition WEEKLY :: string where
  "WEEKLY = ''WEEKLY''"

definition MONTHLY :: string where
  "MONTHLY = ''MONTHLY''"

definition YEARLY :: string where
  "YEARLY = ''YEARLY''"

definition frequencyValues :: "string list" where
  "frequencyValues = [DAILY, WEEKLY, MONTHLY, YEARLY]"

datatype ReminderType = EMAIL | PUSH | SMS

text \<open>An optional field that is absent is \<open>None\<close>. The numbers of a pattern are not
  checked on the way in: they can be fractions, negative, NaN or infinite. The days of the
  week are numbers, as the extractor writes them and the validator and the walk read them.\<close>

record RecurringPattern =
  frequency :: string
  interval :: "Number option"
  daysOfWeek :: "Number list option"
  dayOfMonth :: "Number option"
  endDate :: "Date option"
  occurrences :: "Number option"

record Entities =
  dateTime :: "Date option"
  duration :: "real option"
  title :: "string option"
  attendees :: "string list option"
  location :: "string option"
  description :: "string option"
  contactName :: "string option"
  timeRange :: "(Date \<times> Date) option"
  recurringPattern :: "RecurringPattern option"
  eventId :: "string option"
  reminderTime :: "Date option"
  reminderType :: "ReminderType option"

record ParsedCommand =
  intent :: CommandIntent
  entities :: Entities
  confidence :: real
  originalText :: string

definition noEntities :: Entities where
  "noEntities = \<lparr>dateTime = None, duration = None, title = None, attendees = None,
     location = None, description = None, contactName = None, timeRange = None,
     recurringPattern = None, eventId = None, reminderTime = None, reminderType = None\<rparr>"

section \<open>NLPService: the local parser\<close>

subsection \<open>detectIntent\<close>

definition kw2 :: "string list \<Rightarrow> string list \<Rightarrow> regex" where
  "kw2 as bs = seqs [RWordB, RGrp 1 (anyOf as), RWordB, rAnyStar,
                     RWordB, RGrp 2 (anyOf bs), RWordB]"

definition meetingWords :: "string list" where
  "meetingWords = [''event'', ''meeting'', ''appointment'']"

definition intentPatterns :: "(regex \<times> CommandIntent) list" where
  "intentPatterns =
   [(kw2 [''add'', ''invite''] [''to'', ''attendee'', ''participant''], ADD_ATTENDEE),
    (kw2 [''schedule'', ''create'', ''add'', ''new'', ''set up''] meetingWords, CREATE_EVENT),
    (kw2 [''update'', ''change'', ''modify'', ''reschedule'', ''move''] meetingWords, UPDATE_EVENT),
    (kw2 [''delete'', ''cancel'', ''remove''] meetingWords, DELETE_EVENT),
    (kw2 [''list'', ''show'', ''what'' @ [CHR 0x27] @ ''s'', ''what is'']
         [''calendar'', ''schedule'', ''events'', ''appointments''], LIST_EVENTS),
    (kw2 [''when'', ''what time''] [''meeting'', ''event'', ''appointment''], QUERY_SCHEDULE),
    (kw2 [''add'', ''create'', ''new''] [''contact'', ''person''], ADD_CONTACT),
    (kw2 [''find'', ''search'', ''lookup'', ''who'']
         [''contact'', ''person'', ''email'', ''phone''], QUERY_CONTACT),
    (seqs [RWordB, RGrp 1 (anyOf [''remind'', ''reminder'', ''alert'']), RWordB], SET_REMINDER),
    (seqs [RWordB, RGrp 1 (anyOf [''find time'', ''find slot'', ''available'', ''free time'']),
           RWordB], FIND_TIME),
    (seqs [RWordB, RGrp 1 (alts [RLit ''conflict'', RLit ''conflicts'', RLit ''overlapping'',
             seqs [RLit ''double'', ROpt (RSet False [Dot]), RLit ''booked'']]), RWordB],
     CHECK_CONFLICTS),
    (kw2 [''create'', ''schedule'', ''add'', ''new'', ''set up'']
         [''every'', ''daily'', ''weekly'', ''monthly'', ''yearly'', ''recurring''], CREATE_EVENT)]"

fun firstIntent :: "(regex \<times> CommandIntent) list \<Rightarrow> string \<Rightarrow> CommandIntent" where
  "firstIntent [] input = UNKNOWN"
| "firstIntent ((r, i) # ps) input = (if rxTest False r input then i else firstIntent ps input)"

definition detectIntent :: "string \<Rightarrow> CommandIntent" where
  "detectIntent input = firstIntent intentPatterns input"

subsection \<open>extractDateTime\<close>

definition weekdayWords :: "string list" where
  "weekdayWords = [''monday'', ''tuesday'', ''wednesday'', ''thursday'', ''friday'',
                   ''saturday'', ''sunday'']"

definition dayNames :: "string list" where
  "dayNames = [''sunday'', ''monday'', ''tuesday'', ''wednesday'', ''thursday'', ''friday'',
               ''saturday'']"

fun indexOf :: "string list \<Rightarrow> string \<Rightarrow> int" where
  "indexOf [] w = - 1"
| "indexOf (x # xs) w = (if x = w then 0 else (let i = indexOf xs w in if i < 0 then - 1 else i + 1))"

definition truthyStr :: "string option \<Rightarrow> bool" where
  "truthyStr x = (case x of None \<Rightarrow> False | Some s \<Rightarrow> s \<noteq> [])"

definition parseIntOpt :: "string option \<Rightarrow> int option" where
  "parseIntOpt x = (case x of None \<Rightarrow> None | Some s \<Rightarrow> parseInt s)"

definition lowerOpt :: "string option \<Rightarrow> string" where
  "lowerOpt x = (case x of None \<Rightarrow> [] | Some s \<Rightarrow> toLowerCase s)"

fun firstMatch :: "bool \<Rightarrow> regex list \<Rightarrow> string \<Rightarrow> rmatch option" where
  "firstMatch ic [] text = None"
| "firstMatch ic (r # rs) text =
     (case rxExec ic r text of None \<Rightarrow> firstMatch ic rs text | Some m \<Rightarrow> Some m)"

definition timePatterns :: "regex list" where
  "timePatterns =
   [seqs [RWordB, RLit ''at'', rSp1, RGrp 1 rDigit12, ROpt (RSeq (RLit '':'') (RGrp 2 rDigit2)),
          rSp0, RGrp 3 rAmPm, RWordB],
    seqs [RWordB, RGrp 1 rDigit12, RLit '':'', RGrp 2 rDigit2, rSp0, ROpt (RGrp 3 rAmPm), RWordB],
    seqs [RWordB, RGrp 1 rDigit12, rSp0, RGrp 2 rAmPm, RWordB]]"

text \<open>The time of day of the first pattern that matches: hours and minutes, each of which
  may be NaN (\<open>None\<close>); the minutes are read from the second capture whatever it holds.\<close>

definition extractTime :: "string \<Rightarrow> (int option \<times> int option) option" where
  "extractTime text =
     (case firstMatch True timePatterns text of
        None \<Rightarrow> None
      | Some m \<Rightarrow>
          (let h0 = parseIntOpt (grp m 1);
               minutes = (if truthyStr (grp m 2) then parseIntOpt (grp m 2) else Some 0);
               period = lowerOpt (grp m 3);
               h1 = (if truthyStr (grp m 3) \<and> period = ''pm''
                        \<and> (case h0 of None \<Rightarrow> False | Some h \<Rightarrow> h < 12)
                     then map_option (\<lambda>h. h + 12) h0 else h0);
               hours = (if truthyStr (grp m 3) \<and> period = ''am'' \<and> h1 = Some 12
                        then Some 0 else h1)
           in Some (hours, minutes)))"

definition addTimeN :: "int \<Rightarrow> int option \<Rightarrow> TimeUnit \<Rightarrow> Date" where
  "addTimeN now n u = addTime (Instant now) (numberOf n) u"

text \<open>The date patterns with their extractors, in the order of the source. The result
  \<open>None\<close> is the object \<open>now\<close> itself, \<open>Some d\<close> a date of its own.\<close>

definition datePatterns :: "(regex \<times> (int \<Rightarrow> rmatch \<Rightarrow> Date option)) list" where
  "datePatterns =
   [(seqs [RWordB, RLit ''tomorrow'', RWordB], \<lambda>now m. Some (Instant (tvAddTime now 1 Days))),
    (seqs [RWordB, RLit ''today'', RWordB], \<lambda>now m. None),
    (seqs [RWordB, RLit ''yesterday'', RWordB], \<lambda>now m. Some (Instant (tvAddTime now (- 1) Days))),
    (seqs [RWordB, RLit ''next'', rSp1, RGrp 1 (anyOf weekdayWords), RWordB],
     \<lambda>now m. (let targetDay = indexOf dayNames (lowerOpt (grp m 1));
                   currentDay = tvDay now;
                   daysToAdd = targetDay - currentDay
               in Some (Instant (tvAddTime now
                                   (real_of_int (if daysToAdd \<le> 0 then daysToAdd + 7 else daysToAdd))
                                   Days)))),
    (seqs [RWordB, RLit ''next'', rSp1, RLit ''week'', RWordB],
     \<lambda>now m. Some (Instant (tvAddTime now 7 Days))),
    (seqs [RWordB, RLit ''next'', rSp1, RLit ''month'', RWordB],
     \<lambda>now m. Some (Instant (tvAddTime now 1 Months))),
    (seqs [RWordB, RLit ''in'', rSp1, RGrp 1 rDigits, rSp1, RGrp 2 (anyOf [''hour'', ''hours'']),
           RWordB],
     \<lambda>now m. Some (addTimeN now (parseIntOpt (grp m 1)) Hours)),
    (seqs [RWordB, RLit ''in'', rSp1, RGrp 1 rDigits, rSp1,
           RGrp 2 (anyOf [''minute'', ''minutes'']), RWordB],
     \<lambda>now m. Some (addTimeN now (parseIntOpt (grp m 1)) Minutes)),
    (seqs [RWordB, RLit ''in'', rSp1, RGrp 1 rDigits, rSp1, RGrp 2 (anyOf [''day'', ''days'']),
           RWordB],
     \<lambda>now m. Some (addTimeN now (parseIntOpt (grp m 1)) Days)),
    (seqs [RWordB, RLit ''on'', rSp1, RGrp 1 rDigit12, RLit ''/'', RGrp 2 rDigit12,
           ROpt (RSeq (RLit ''/'') (RGrp 3 rDigit24)), RWordB],
     \<lambda>now m. (case (parseIntOpt (grp m 1), parseIntOpt (grp m 2),
                     if truthyStr (grp m 3) then parseIntOpt (grp m 3) else Some (tvFullYear now)) of
                 (Some mo, Some dy, Some yr) \<Rightarrow> Some (Instant (newDate yr (mo - 1) dy 0 0 0 0))
               | _ \<Rightarrow> Some InvalidDate))]"

fun firstDate :: "(regex \<times> (int \<Rightarrow> rmatch \<Rightarrow> Date option)) list \<Rightarrow> int \<Rightarrow> string \<Rightarrow> Date option"
  where
  "firstDate [] now text = None"
| "firstDate ((r, f) # ps) now text =
     (case rxExec True r text of None \<Rightarrow> firstDate ps now text | Some m \<Rightarrow> f now m)"

definition hourWords :: "string list" where
  "hourWords = [''hour'', ''hours'', ''hr'', ''hrs'']"

text \<open>The duration patterns, each with whether its source text contains \<open>hour\<close>.\<close>

definition durationPatterns :: "(regex \<times> bool) list" where
  "durationPatterns =
   [(seqs [RWordB, RGrp 1 rDigits, RLit ''-hour'', RWordB], True),
    (seqs [RWordB, RGrp 1 rDigits, rSp0, anyOf hourWords, RWordB], True),
    (seqs [RWordB, RGrp 1 (seqs [rDigits, ROpt (RLit ''.''), RStar rDigit]), rSp0,
           anyOf hourWords, RWordB], True),
    (seqs [RWordB, RGrp 1 rDigits, rSp0, anyOf [''minute'', ''minutes'', ''min'', ''mins''],
           RWordB], False)]"

fun firstDuration :: "(regex \<times> bool) list \<Rightarrow> string \<Rightarrow> real option" where
  "firstDuration [] text = None"
| "firstDuration ((r, hour) # ps) text =
     (case rxExec True r text of
        None \<Rightarrow> firstDuration ps text
      | Some m \<Rightarrow> (let v = (case grp m 1 of None \<Rightarrow> 0 | Some s \<Rightarrow> parseFloat s)
                   in Some (if hour then v * 60 else v)))"

record DateTimeResult =
  r_dateTime :: "Date option"
  r_duration :: "real option"

definition extractDateTime :: "int \<Rightarrow> string \<Rightarrow> DateTimeResult" where
  "extractDateTime now text =
     (let baseDate = firstDate datePatterns now text;
          dt = (case extractTime text of
                  Some (hours, minutes) \<Rightarrow>
                    Some (setHours (case baseDate of None \<Rightarrow> Instant now | Some d \<Rightarrow> d)
                                   hours minutes 0 0)
                | None \<Rightarrow> baseDate);
          dur = firstDuration durationPatterns text;
          dur' = (if (dur = None \<or> dur = Some 0) \<and> dt \<noteq> None
                     \<and> (includesStr text ''meeting'' \<or> includesStr text ''appointment'')
                  then Some 60 else dur)
      in \<lparr>r_dateTime = dt, r_duration = dur'\<rparr>)"

subsection \<open>extractTitle\<close>

definition titleCommandWords :: regex where
  "titleCommandWords = seqs [RWordB, RGrp 1 (anyOf [''schedule'', ''create'', ''add'', ''new'',
      ''set up'', ''update'', ''change'', ''modify'']), RWordB]"

definition titleObjectWords :: regex where
  "titleObjectWords = seqs [RWordB, RGrp 1 (anyOf meetingWords), RWordB]"

definition titleTail :: regex where
  "titleTail = seqs [RWordB, RGrp 1 (anyOf [''with'', ''at'', ''on'', ''in'', ''for'', ''from'',
      ''to'']), RWordB, rAnyStar, REos]"

definition quoteChars :: "cls list" where
  "quoteChars = [Ch (CHR 0x22), Ch (CHR 0x27)]"

definition quotedPattern :: regex where
  "quotedPattern = seqs [RSet False quoteChars, RGrp 1 (RPlus (RSet True quoteChars)),
                         RSet False quoteChars]"

definition extractTitle :: "string \<Rightarrow> string" where
  "extractTitle text =
     (let stripped = trim (removeAll_rx True titleTail
                             (removeAll_rx True titleObjectWords
                                (removeAll_rx True titleCommandWords text)));
          title = (case rxExec True quotedPattern text of
                     None \<Rightarrow> stripped
                   | Some m \<Rightarrow> (case grp m 1 of None \<Rightarrow> [] | Some q \<Rightarrow> q))
      in if title = [] then ''Untitled Event'' else title)"

subsection \<open>extractAttendees\<close>

definition rName :: regex where
  "rName = seqs [RSet False [UpperC], RPlus (RSet False [LowerC]),
                 ROpt (seqs [rSp1, RSet False [UpperC], RPlus (RSet False [LowerC])])]"

definition withPattern :: regex where
  "withPattern = seqs [RWordB, RLit ''with'', rSp1,
     RGrp 1 (seqs [rName, RStar (seqs [rSp0, RLit '','', rSp0, rName]),
                   ROpt (seqs [rSp1, RLit ''and'', rSp1, rName])]), RWordB]"

definition nameSeparator :: regex where
  "nameSeparator = RAlt (seqs [rSp0, RLit '','', rSp0]) (seqs [rSp1, RLit ''and'', rSp1])"

definition timeWords :: "regex list" where
  "timeWords = map RLit ([''tomorrow'', ''today''] @ weekdayWords) @ [seqs [rDigits, rSp0, rAmPm]]"

definition nameIsTimeWord :: regex where
  "nameIsTimeWord = RGrp 1 (alts timeWords)"

definition invitePattern :: regex where
  "invitePattern = seqs [RWordB, anyOf [''invite'', ''add''], rSp1, RGrp 1 rName, RWordB]"

definition capturesOf :: "nat \<Rightarrow> rmatch list \<Rightarrow> string list" where
  "capturesOf n ms = concat (map (\<lambda>m. case grp m n of None \<Rightarrow> [] | Some x \<Rightarrow> [x]) ms)"

definition extractAttendees :: "string \<Rightarrow> string list" where
  "extractAttendees text =
     (let names = (case rxExec True withPattern text of
                     None \<Rightarrow> []
                   | Some m \<Rightarrow>
                       filter (\<lambda>name. name \<noteq> [] \<and> \<not> rxTest True nameIsTimeWord name)
                         (map trim (split_rx True nameSeparator
                                      (case grp m 1 of None \<Rightarrow> [] | Some x \<Rightarrow> x))));
          invited = capturesOf 1 (matchAll True invitePattern text)
      in dedupe [] (names @ invited))"

subsection \<open>extractLocation\<close>

definition locationPatterns :: "regex list" where
  "locationPatterns =
   [seqs [RWordB, anyOf [''at'', ''in''], rSp1, ROpt (seqs [RLit ''the'', rSp1]),
          RGrp 1 (RSeq (RSet False [UpperC]) (RLazyPlus (RSet True [Ch (CHR '',''), Ch (CHR ''.'')]))),
          rSp0,
          alts [RLit '','', RLit ''.'',
                seqs [RWordB, alts (map RLit [''on'', ''at'', ''with'', ''for''] @ timeWords),
                      RWordB]]],
    seqs [RWordB, anyOf [''location'', ''place'', ''venue''], RLit '':'', rSp0,
          RGrp 1 (RPlus (RSet True [Ch (CHR '',''), Ch (CHR ''.'')]))]]"

definition locationIsTimeWord :: regex where
  "locationIsTimeWord = seqs [RWordB, alts timeWords, RWordB]"

fun firstLocation :: "regex list \<Rightarrow> string \<Rightarrow> string option" where
  "firstLocation [] text = None"
| "firstLocation (r # rs) text =
     (case rxExec True r text of
        None \<Rightarrow> firstLocation rs text
      | Some m \<Rightarrow> (let loc = trim (case grp m 1 of None \<Rightarrow> [] | Some x \<Rightarrow> x)
                   in if \<not> rxTest True locationIsTimeWord loc then Some loc
                      else firstLocation rs text))"

definition extractLocation :: "string \<Rightarrow> string option" where
  "extractLocation text = firstLocation locationPatterns text"

subsection \<open>extractContactName\<close>

definition contactPatterns :: "regex list" where
  "contactPatterns =
   [seqs [RWordB, anyOf [''contact'', ''person'', ''add'', ''find'', ''search'', ''lookup''], rSp1,
          ROpt (seqs [RLit ''name'', ROpt (RLit ''d''), rSp1]), RGrp 1 rName, RWordB],
    seqs [RWordB, RGrp 1 rName, RLit [CHR 0x27, CHR ''s''], rSp1,
          anyOf [''email'', ''phone'', ''contact''], RWordB]]"

definition extractContactName :: "string \<Rightarrow> string option" where
  "extractContactName text =
     (case firstMatch True contactPatterns text of
        None \<Rightarrow> None
      | Some m \<Rightarrow> Some (trim (case grp m 1 of None \<Rightarrow> [] | Some x \<Rightarrow> x)))"

subsection \<open>extractTimeRange\<close>

definition startOfDay :: "int \<Rightarrow> int" where
  "startOfDay t = tvSetHours t 0 0 0 0"

definition endOfDay :: "int \<Rightarrow> int" where
  "endOfDay t = tvSetHours t 23 59 59 999"

definition weekRange :: "int \<Rightarrow> int \<Rightarrow> int \<times> int" where
  "weekRange now shift =
     (let start = startOfDay (tvSetDate now (tvDate now - tvDay now + shift));
          end = endOfDay (tvSetDate start (tvDate start + 6))
      in (start, end))"

definition monthRange :: "int \<Rightarrow> int \<Rightarrow> int \<times> int" where
  "monthRange now shift =
     (newDate (tvFullYear now) (tvMonth now + shift) 1 0 0 0 0,
      newDate (tvFullYear now) (tvMonth now + shift + 1) 0 23 59 59 999)"

definition rangePatterns :: "(regex \<times> (int \<Rightarrow> int \<times> int)) list" where
  "rangePatterns =
   [(seqs [RWordB, RLit ''today'', RWordB], \<lambda>now. (startOfDay now, endOfDay now)),
    (seqs [RWordB, RLit ''tomorrow'', RWordB],
     \<lambda>now. (startOfDay (tvAddTime now 1 Days), endOfDay (tvAddTime now 1 Days))),
    (seqs [RWordB, RLit ''this'', rSp1, RLit ''week'', RWordB], \<lambda>now. weekRange now 0),
    (seqs [RWordB, RLit ''next'', rSp1, RLit ''week'', RWordB], \<lambda>now. weekRange now 7),
    (seqs [RWordB, RLit ''this'', rSp1, RLit ''month'', RWordB], \<lambda>now. monthRange now 0),
    (seqs [RWordB, RLit ''next'', rSp1, RLit ''month'', RWordB], \<lambda>now. monthRange now 1)]"

fun firstRange :: "(regex \<times> (int \<Rightarrow> int \<times> int)) list \<Rightarrow> int \<Rightarrow> string \<Rightarrow> (int \<times> int) option"
  where
  "firstRange [] now text = None"
| "firstRange ((r, f) # ps) now text =
     (if rxTest True r text then Some (f now) else firstRange ps now text)"

definition extractTimeRange :: "int \<Rightarrow> string \<Rightarrow> (Date \<times> Date) option" where
  "extractTimeRange now text =
     (case firstRange rangePatterns now text of
        Some (s, e) \<Rightarrow> Some (Instant s, Instant e)
      | None \<Rightarrow>
          (case r_dateTime (extractDateTime now text) of
             Some d \<Rightarrow> Some (setHours d (Some 0) (Some 0) 0 0, setHours d (Some 23) (Some 59) 59 999)
           | None \<Rightarrow> None))"

subsection \<open>extractRecurringPattern\<close>

definition recurrenceWords :: regex where
  "recurrenceWords = RGrp 1 (anyOf [''every'', ''daily'', ''weekly'', ''monthly'', ''yearly'',
                                    ''recurring''])"

definition wordPattern :: "string \<Rightarrow> regex" where
  "wordPattern w = seqs [RWordB, RLit w, RWordB]"

definition everyPattern :: "string \<Rightarrow> regex" where
  "everyPattern w = seqs [RWordB, RLit ''every'', rSp1, RLit w, RWordB]"

definition hasFrequency :: "string \<Rightarrow> string \<Rightarrow> string \<Rightarrow> bool" where
  "hasFrequency adverb unit text =
     (rxTest True (wordPattern adverb) text \<or> rxTest True (everyPattern unit) text)"

definition extractFrequency :: "string \<Rightarrow> string" where
  "extractFrequency text =
     (if hasFrequency ''daily'' ''day'' text then DAILY
      else if hasFrequency ''weekly'' ''week'' text then WEEKLY
      else if hasFrequency ''monthly'' ''month'' text then MONTHLY
      else if hasFrequency ''yearly'' ''year'' text then YEARLY
      else DAILY)"

definition unitWord :: "string \<Rightarrow> regex" where
  "unitWord w = RSeq (RLit w) (ROpt (RLit ''s''))"

definition intervalPattern :: regex where
  "intervalPattern = seqs [RWordB, RLit ''every'', rSp1, RGrp 1 rDigits, rSp1,
     alts [unitWord ''day'', unitWord ''week'', unitWord ''month'', unitWord ''year''], RWordB]"

definition dayPattern :: regex where
  "dayPattern = seqs [RWordB, RLit ''every'', rSp1, RGrp 1 (anyOf weekdayWords),
     RStar (seqs [rSp0, RAlt (RSeq (RLit '','') rSp0) (seqs [rSp1, RLit ''and'', rSp1]),
                  RGrp 2 (anyOf weekdayWords)])]"

definition singleDayPattern :: regex where
  "singleDayPattern = seqs [RWordB, RLit ''every'', rSp1, RGrp 1 (anyOf weekdayWords), RWordB]"

definition dayIndexes :: "string option list \<Rightarrow> int list" where
  "dayIndexes cs =
     concat (map (\<lambda>c. if truthyStr c
                       then (let dayIndex = indexOf dayNames (lowerOpt c)
                             in if dayIndex \<noteq> - 1 then [dayIndex] else [])
                       else []) cs)"

text \<open>The days of the week of a weekly pattern; the sort is the default one, on digits
  0 to 6 the numeric order.\<close>

definition extractDaysOfWeek :: "string \<Rightarrow> Number list option" where
  "extractDaysOfWeek text =
     (let days = concat (map (\<lambda>m. dayIndexes [grp m 1, grp m 2]) (matchAll True dayPattern text))
               @ concat (map (\<lambda>m. dayIndexes [grp m 1]) (matchAll True singleDayPattern text))
      in if days \<noteq> [] then Some (map (\<lambda>d. Finite (real_of_int d)) (sort (dedupe [] days)))
         else None)"

definition dayOfMonthPattern :: regex where
  "dayOfMonthPattern = seqs [RWordB, RLit ''on'', rSp1, RLit ''the'', rSp1, RGrp 1 rDigit12,
     ROpt (anyOf [''st'', ''nd'', ''rd'', ''th'']), RWordB]"

definition untilPattern :: regex where
  "untilPattern = seqs [RWordB, RLit ''until'', rSp1, RGrp 1 (RPlus (RSet True [Ch (CHR '','')]))]"

definition occurrencesPattern :: regex where
  "occurrencesPattern = seqs [RWordB, RLit ''for'', rSp1, RGrp 1 rDigits, rSp1,
     RAlt (unitWord ''time'') (unitWord ''occurrence''), RWordB]"

text \<open>The number \<open>parseInt\<close> reads from the first capture when the clause is there.\<close>

definition capturedInt :: "regex \<Rightarrow> string \<Rightarrow> Number option" where
  "capturedInt r text = (case rxExec True r text of None \<Rightarrow> None
                         | Some m \<Rightarrow> Some (numberOf (parseIntOpt (grp m 1))))"

definition untilDate :: "int \<Rightarrow> string \<Rightarrow> Date option" where
  "untilDate now text =
     (case rxExec True untilPattern text of
        None \<Rightarrow> None
      | Some m \<Rightarrow> r_dateTime (extractDateTime now (case grp m 1 of None \<Rightarrow> [] | Some x \<Rightarrow> x)))"

definition extractRecurringPattern :: "int \<Rightarrow> string \<Rightarrow> RecurringPattern option" where
  "extractRecurringPattern now text =
     (if \<not> rxTest True recurrenceWords text then None
      else
        (let freq = extractFrequency text;
             itv = (case rxExec True intervalPattern text of
                      None \<Rightarrow> Finite 1
                    | Some m \<Rightarrow> numberOf (parseIntOpt (grp m 1)))
         in Some \<lparr>frequency = freq,
                  interval = Some itv,
                  daysOfWeek = (if freq = WEEKLY then extractDaysOfWeek text else None),
                  dayOfMonth = (if freq = MONTHLY then capturedInt dayOfMonthPattern text else None),
                  endDate = untilDate now text,
                  occurrences = capturedInt occurrencesPattern text\<rparr>))"

subsection \<open>extractReminderInfo\<close>

definition reminderTypeOf :: "string \<Rightarrow> ReminderType" where
  "reminderTypeOf text =
     (if rxTest True (wordPattern ''email'') text then EMAIL
      else if rxTest True (RAlt (wordPattern ''sms'') (wordPattern ''text'')) text then SMS
      else PUSH)"

subsection \<open>extractEntities and fallbackParse\<close>

definition extractEntities :: "int \<Rightarrow> string \<Rightarrow> CommandIntent \<Rightarrow> Entities" where
  "extractEntities now text i =
     (let dateTimeResult = extractDateTime now text;
          people = extractAttendees text
      in \<lparr>dateTime = r_dateTime dateTimeResult,
          duration = (case r_duration dateTimeResult of
                        None \<Rightarrow> None | Some d \<Rightarrow> if d = 0 then None else Some d),
          title = (if i \<in> set [CREATE_EVENT, UPDATE_EVENT] then Some (extractTitle text) else None),
          attendees = (if people \<noteq> [] then Some people else None),
          location = (case extractLocation text of
                        None \<Rightarrow> None | Some l \<Rightarrow> if l = [] then None else Some l),
          description = None,
          contactName = (if i \<in> set [ADD_CONTACT, QUERY_CONTACT, ADD_ATTENDEE]
                         then extractContactName text else None),
          timeRange = (if i \<in> set [LIST_EVENTS, QUERY_SCHEDULE, FIND_TIME, CHECK_CONFLICTS]
                       then extractTimeRange now text else None),
          recurringPattern = extractRecurringPattern now text,
          eventId = None,
          reminderTime = (if i = SET_REMINDER then r_dateTime (extractDateTime now text) else None),
          reminderType = (if i = SET_REMINDER then Some (reminderTypeOf text) else None)\<rparr>)"

definition fallbackParse :: "int \<Rightarrow> string \<Rightarrow> ParsedCommand" where
  "fallbackParse now input =
     (let lowerInput = trim (toLowerCase input);
          i = detectIntent lowerInput
      in \<lparr>intent = i,
          entities = extractEntities now input i,
          confidence = (if i \<noteq> UNKNOWN then 0.6 else 0.3),
          originalText = input\<rparr>)"

section \<open>MemoryCache\<close>

record 'v CacheEntry =
  data :: 'v
  timestamp :: int
  ttl :: int

type_synonym 'v MemoryCache = "string \<Rightarrow> 'v CacheEntry option"

text \<open>\<open>new Map()\<close>.\<close>

definition emptyCache :: "'v MemoryCache" where
  "emptyCache = (\<lambda>key. None)"

text \<open>\<open>get\<close> at the time \<open>now\<close> (\<open>Date.now()\<close>): the value, and the map it leaves.\<close>

definition cacheGet :: "int \<Rightarrow> string \<Rightarrow> 'v MemoryCache \<Rightarrow> 'v option \<times> 'v MemoryCache" where
  "cacheGet now key c =
     (case c key of
        None \<Rightarrow> (None, c)
      | Some entry \<Rightarrow>
          if now > timestamp entry + ttl entry then (None, c(key := None))
          else (Some (data entry), c))"

text \<open>\<open>set\<close>; \<open>cfgTtl\<close> is \<open>config.cache.ttl\<close>, which stands in for a missing or zero \<open>ttl\<close>.\<close>

definition cacheSet :: "int \<Rightarrow> int \<Rightarrow> string \<Rightarrow> 'v \<Rightarrow> int option \<Rightarrow> 'v MemoryCache \<Rightarrow> 'v MemoryCache"
  where
  "cacheSet cfgTtl now key v ttlArg c =
     (let ttlMs = (case ttlArg of None \<Rightarrow> cfgTtl | Some t \<Rightarrow> if t = 0 then cfgTtl else t) * 1000
      in c(key \<mapsto> \<lparr>data = v, timestamp = now, ttl = ttlMs\<rparr>))"

definition cacheDelete :: "string \<Rightarrow> 'v MemoryCache \<Rightarrow> bool \<times> 'v MemoryCache" where
  "cacheDelete key c = (c key \<noteq> None, c(key := None))"

definition cacheCleanup :: "int \<Rightarrow> 'v MemoryCache \<Rightarrow> 'v MemoryCache" where
  "cacheCleanup now c =
     (\<lambda>key. case c key of None \<Rightarrow> None
             | Some entry \<Rightarrow> if now > timestamp entry + ttl entry then None else Some entry)"

section \<open>NLPService: the remote parser and parseCommand\<close>

text \<open>
  What the completion endpoint sent, once decoded: the JSON reply with its date strings
  already read as dates, or the way the attempt failed. The retry-after header is given as
  \<open>parseInt\<close> reads it (\<open>None\<close>: NaN).
\<close>

record AiPattern =
  ai_frequency :: string
  ai_interval :: "Number option"
  ai_daysOfWeek :: "Number list option"
  ai_dayOfMonth :: "Number option"
  ai_endDate :: "Date option"
  ai_occurrences :: "Number option"

record AiEntities =
  ai_dateTime :: "Date option"
  ai_duration :: "real option"
  ai_title :: "string option"
  ai_attendees :: "string list option"
  ai_location :: "string option"
  ai_description :: "string option"
  ai_contactName :: "string option"
  ai_timeRange :: "(Date \<times> Date) option"
  ai_recurringPattern :: "AiPattern option"
  ai_eventId :: "string option"
  ai_reminderTime :: "Date option"
  ai_reminderType :: "string option"

record AiResponse =
  ai_intent :: string
  ai_confidence :: "real option"
  ai_entities :: "AiEntities option"

datatype RemoteError =
    EmptyResponse
  | MalformedReply
  | HttpError nat "int option"
  | NetworkError

datatype RemoteOutcome = Reply AiResponse | Failed RemoteError

definition intentNames :: "(string \<times> CommandIntent) list" where
  "intentNames =
   [(''CREATE_EVENT'', CREATE_EVENT), (''UPDATE_EVENT'', UPDATE_EVENT),
    (''DELETE_EVENT'', DELETE_EVENT), (''LIST_EVENTS'', LIST_EVENTS),
    (''QUERY_SCHEDULE'', QUERY_SCHEDULE), (''ADD_CONTACT'', ADD_CONTACT),
    (''QUERY_CONTACT'', QUERY_CONTACT), (''SET_REMINDER'', SET_REMINDER),
    (''FIND_TIME'', FIND_TIME), (''FIND_FREE_TIME'', FIND_FREE_TIME),
    (''ADD_ATTENDEE'', ADD_ATTENDEE), (''CHECK_CONFLICTS'', CHECK_CONFLICTS),
    (''UNKNOWN'', UNKNOWN)]"

definition reminderNames :: "(string \<times> ReminderType) list" where
  "reminderNames = [(''EMAIL'', EMAIL), (''PUSH'', PUSH), (''SMS'', SMS)]"

definition validatePattern :: "AiPattern \<Rightarrow> RecurringPattern" where
  "validatePattern p =
     \<lparr>frequency = (if ai_frequency p \<in> set frequencyValues then ai_frequency p else DAILY),
      interval = Some (case ai_interval p of
                         None \<Rightarrow> Finite 1 | Some n \<Rightarrow> if truthy n then n else Finite 1),
      daysOfWeek = ai_daysOfWeek p,
      dayOfMonth = ai_dayOfMonth p,
      endDate = ai_endDate p,
      occurrences = ai_occurrences p\<rparr>"

definition validateEntities :: "AiEntities \<Rightarrow> Entities" where
  "validateEntities e =
     \<lparr>dateTime = ai_dateTime e, duration = ai_duration e, title = ai_title e,
      attendees = ai_attendees e, location = ai_location e, description = ai_description e,
      contactName = ai_contactName e, timeRange = ai_timeRange e,
      recurringPattern = map_option validatePattern (ai_recurringPattern e),
      eventId = ai_eventId e, reminderTime = ai_reminderTime e,
      reminderType = (case ai_reminderType e of
                        None \<Rightarrow> None
                      | Some t \<Rightarrow> if t = [] then None
                                  else Some (case map_of reminderNames t of None \<Rightarrow> PUSH | Some r \<Rightarrow> r))\<rparr>"

definition validateAndTransformAIResponse :: "AiResponse \<Rightarrow> string \<Rightarrow> ParsedCommand" where
  "validateAndTransformAIResponse aiResponse text =
     \<lparr>intent = (case map_of intentNames (ai_intent aiResponse) of None \<Rightarrow> UNKNOWN | Some i \<Rightarrow> i),
      entities = (case ai_entities aiResponse of None \<Rightarrow> noEntities | Some e \<Rightarrow> validateEntities e),
      confidence = (case ai_confidence aiResponse of
                      None \<Rightarrow> 0.5 | Some c \<Rightarrow> if c = 0 then 0.5 else c),
      originalText = text\<rparr>"

text \<open>The service: its configuration, and the state it shares between calls, with the
  clock \<open>Date.now()\<close> reads. \<open>tzOffset\<close> places the clock on the local time line.\<close>

record Config =
  apiKey :: string
  cacheTtl :: int
  tzOffset :: int

record World =
  cacheStore :: "ParsedCommand MemoryCache"
  rateLimitReset :: int
  clock :: int

definition maxRetries :: nat where
  "maxRetries = 3"

definition retryDelay :: int where
  "retryDelay = 1000"

definition localNow :: "Config \<Rightarrow> World \<Rightarrow> int" where
  "localNow cfg w = clock w + tzOffset cfg"

definition isRateLimit :: "RemoteError \<Rightarrow> bool" where
  "isRateLimit e = (case e of HttpError st ra \<Rightarrow> st = 429 | _ \<Rightarrow> False)"

definition isClientError :: "RemoteError \<Rightarrow> bool" where
  "isClientError e = (case e of HttpError st ra \<Rightarrow> 400 \<le> st \<and> st < 500 \<and> st \<noteq> 429 | _ \<Rightarrow> False)"

definition noteRateLimit :: "RemoteError \<Rightarrow> World \<Rightarrow> World" where
  "noteRateLimit e w =
     (case e of
        HttpError st ra \<Rightarrow>
          if st = 429
          then w\<lparr>rateLimitReset :=
                   clock w + (case ra of None \<Rightarrow> 60 | Some n \<Rightarrow> if n = 0 then 60 else n) * 1000\<rparr>
          else w
      | _ \<Rightarrow> w)"

text \<open>
  \<open>parseWithAI\<close> from attempt \<open>attempt\<close> on: \<open>remote k\<close> is what attempt \<open>k\<close> meets and how
  long the request takes. \<open>Inl\<close> is the error thrown.
\<close>

function parseWithAIFrom ::
  "Config \<Rightarrow> (nat \<Rightarrow> RemoteOutcome \<times> int) \<Rightarrow> string \<Rightarrow> nat \<Rightarrow> World
     \<Rightarrow> (RemoteError + ParsedCommand) \<times> World" where
  "parseWithAIFrom cfg remote input attempt w =
     (if attempt \<le> maxRetries then
        (let w1 = w\<lparr>clock := clock w + snd (remote attempt)\<rparr>
         in case fst (remote attempt) of
              Reply aiResponse \<Rightarrow> (Inr (validateAndTransformAIResponse aiResponse input), w1)
            | Failed e \<Rightarrow>
                (let w2 = noteRateLimit e w1
                 in if isClientError e then (Inl e, w2)
                    else if attempt < maxRetries
                    then parseWithAIFrom cfg remote input (attempt + 1)
                           (w2\<lparr>clock := clock w2 + retryDelay * int attempt\<rparr>)
                    else (Inl e, w2)))
      else (Inr (fallbackParse (localNow cfg w) input), w))"
  by pat_completeness auto
termination
  by (relation "measure (\<lambda>(cfg, remote, input, attempt, w). maxRetries + 1 - attempt)") auto

declare parseWithAIFrom.simps [simp del]

definition parseWithAI ::
  "Config \<Rightarrow> (nat \<Rightarrow> RemoteOutcome \<times> int) \<Rightarrow> string \<Rightarrow> World
     \<Rightarrow> (RemoteError + ParsedCommand) \<times> World" where
  "parseWithAI cfg remote input w = parseWithAIFrom cfg remote input 1 w"

definition cacheKeyOf :: "string \<Rightarrow> string" where
  "cacheKeyOf input = ''nlp:'' @ trim (toLowerCase input)"

text \<open>\<open>parseCommand\<close>: \<open>Inr\<close> is the command the promise resolves with, \<open>Inl\<close> a rejection.\<close>

definition parseCommand ::
  "Config \<Rightarrow> (nat \<Rightarrow> RemoteOutcome \<times> int) \<Rightarrow> string \<Rightarrow> World
     \<Rightarrow> (RemoteError + ParsedCommand) \<times> World" where
  "parseCommand cfg remote input w =
     (let cacheKey = cacheKeyOf input;
          (cachedResult, store) = cacheGet (clock w) cacheKey (cacheStore w);
          w0 = w\<lparr>cacheStore := store\<rparr>
      in case cachedResult of
           Some parsed \<Rightarrow> (Inr parsed, w0)
         | None \<Rightarrow>
             if rateLimitReset w0 > clock w0 then (Inr (fallbackParse (localNow cfg w0) input), w0)
             else if apiKey cfg \<noteq> [] then
               (case parseWithAI cfg remote input w0 of
                  (Inr parsed, w1) \<Rightarrow>
                    (Inr parsed,
                     w1\<lparr>cacheStore := cacheSet (cacheTtl cfg) (clock w1) cacheKey parsed (Some 3600)
                                         (cacheStore w1)\<rparr>)
                | (Inl e, w1) \<Rightarrow> (Inr (fallbackParse (localNow cfg w1) input), w1))
             else
               (let parsed = fallbackParse (localNow cfg w0) input
                in (Inr parsed,
                    w0\<lparr>cacheStore := cacheSet (cacheTtl cfg) (clock w0) cacheKey parsed (Some 3600)
                                        (cacheStore w0)\<rparr>)))"

section \<open>dateHelpers: occurrences of a recurring pattern\<close>

text \<open>\<open>pattern.interval || 1\<close>.\<close>

definition intervalOr1 :: "RecurringPattern \<Rightarrow> Number" where
  "intervalOr1 p = (case interval p of None \<Rightarrow> Finite 1 | Some n \<Rightarrow> if truthy n then n else Finite 1)"

text \<open>\<open>pattern.occurrences && occurrenceCount >= pattern.occurrences\<close>.\<close>

definition occurrencesReached :: "RecurringPattern \<Rightarrow> int \<Rightarrow> bool" where
  "occurrencesReached p occurrenceCount =
     (case occurrences p of None \<Rightarrow> False | Some n \<Rightarrow> truthy n \<and> intAtLeast occurrenceCount n)"

text \<open>\<open>pattern.endDate && d > pattern.endDate\<close>.\<close>

definition pastEndDate :: "RecurringPattern \<Rightarrow> Date \<Rightarrow> bool" where
  "pastEndDate p d = (case endDate p of None \<Rightarrow> False | Some e \<Rightarrow> dateLess e d)"

text \<open>\<open>pattern.daysOfWeek.includes(current.getDay())\<close>: the day of an invalid date is NaN,
  which the search finds in a list that holds NaN.\<close>

definition includesDay :: "Number list \<Rightarrow> Date \<Rightarrow> bool" where
  "includesDay days d = (numberOf (getDay d) \<in> set days)"

text \<open>The search for the next day of the week, at most \<open>k\<close> days on.\<close>

fun nextWeekday :: "Number list \<Rightarrow> Date \<Rightarrow> nat \<Rightarrow> Date option" where
  "nextWeekday days current 0 = None"
| "nextWeekday days current (Suc k) =
     (let c = addTime current (Finite 1) Days
      in if includesDay days c then Some c else nextWeekday days c k)"

text \<open>\<open>current.setMonth(current.getMonth() + k); current.setDate(dayNo)\<close>.\<close>

fun setMonthThenDate :: "Date \<Rightarrow> Number \<Rightarrow> Number \<Rightarrow> Date" where
  "setMonthThenDate (Instant t) (Finite k) (Finite dayNo) =
     Instant (tvSetDate (tvSetMonth t (ToIntegerOrInfinity (real_of_int (tvMonth t) + k)))
                (ToIntegerOrInfinity dayNo))"
| "setMonthThenDate d k dayNo = InvalidDate"

text \<open>One step of the walk, by the frequency of the pattern; \<open>None\<close> when no day of the
  week is found. The switch has no default: a frequency that is none of the four members
  leaves the date where it is.\<close>

definition advance :: "RecurringPattern \<Rightarrow> Date \<Rightarrow> Date option" where
  "advance p current =
     (if frequency p = DAILY then Some (addTime current (intervalOr1 p) Days)
      else if frequency p = WEEKLY then
        (case daysOfWeek p of
           None \<Rightarrow> Some (addTime current (times7 (intervalOr1 p)) Days)
         | Some days \<Rightarrow>
             if days \<noteq> [] then nextWeekday days current 7
             else Some (addTime current (times7 (intervalOr1 p)) Days))
      else if frequency p = MONTHLY then
        (case dayOfMonth p of
           None \<Rightarrow> Some (addTime current (intervalOr1 p) Months)
         | Some dayNo \<Rightarrow>
             if truthy dayNo then Some (setMonthThenDate current (intervalOr1 p) dayNo)
             else Some (addTime current (intervalOr1 p) Months))
      else if frequency p = YEARLY then Some (addTime current (intervalOr1 p) Years)
      else Some current)"

text \<open>The loop of \<open>getNextOccurrence\<close>; the inner \<open>None\<close> is \<open>null\<close>, the outer one a walk
  that never ends.\<close>

partial_function (option) nextOccurrenceLoop ::
  "RecurringPattern \<Rightarrow> Date \<Rightarrow> Date \<Rightarrow> int \<Rightarrow> Date option option" where
  "nextOccurrenceLoop p afterDate current occurrenceCount =
     (if dateLeq current afterDate \<or> occurrenceCount = 0 then
        (if occurrencesReached p occurrenceCount then Some None
         else case advance p current of
                None \<Rightarrow> Some None
              | Some c \<Rightarrow>
                  if pastEndDate p c then Some None
                  else if dateLess afterDate c then Some (Some c)
                  else nextOccurrenceLoop p afterDate c (occurrenceCount + 1))
      else Some None)"

declare nextOccurrenceLoop.simps [code]

definition getNextOccurrence :: "Date \<Rightarrow> RecurringPattern \<Rightarrow> Date \<Rightarrow> Date option option" where
  "getNextOccurrence startDate p afterDate =
     (if pastEndDate p afterDate then Some None
      else nextOccurrenceLoop p afterDate startDate 0)"

partial_function (option) occurrencesLoop ::
  "RecurringPattern \<Rightarrow> Date \<Rightarrow> Date \<Rightarrow> Date \<Rightarrow> int \<Rightarrow> Date list \<Rightarrow> Date list option" where
  "occurrencesLoop p rangeStart rangeEnd current occurrenceCount found =
     (if dateLeq current rangeEnd then
        (if occurrencesReached p occurrenceCount then Some found
         else if pastEndDate p current then Some found
         else
           (let found' = (if dateLeq rangeStart current \<and> dateLeq current rangeEnd
                          then found @ [current] else found)
            in Option.bind (getNextOccurrence current p current)
                 (\<lambda>next. case next of
                            None \<Rightarrow> Some found'
                          | Some n \<Rightarrow>
                              if dateLeq n current then Some found'
                              else occurrencesLoop p rangeStart rangeEnd n (occurrenceCount + 1)
                                     found')))
      else Some found)"

declare occurrencesLoop.simps [code]

definition getOccurrencesInRange ::
  "Date \<Rightarrow> RecurringPattern \<Rightarrow> Date \<Rightarrow> Date \<Rightarrow> Date list option" where
  "getOccurrencesInRange startDate p rangeStart rangeEnd =
     (if dateLess rangeEnd startDate then Some []
      else if (case endDate p of None \<Rightarrow> False | Some e \<Rightarrow> dateLess e rangeStart) then Some []
      else if dateLess startDate rangeStart then
        Option.bind (getNextOccurrence startDate p rangeStart)
          (\<lambda>next. occurrencesLoop p rangeStart rangeEnd
                     (case next of None \<Rightarrow> startDate | Some n \<Rightarrow> n) 0 [])
      else occurrencesLoop p rangeStart rangeEnd startDate 0 [])"

section \<open>validation: validateRecurringPattern\<close>

text \<open>The messages of the validator, in the order of its checks. An array and a date are
  truthy whatever they hold.\<close>

definition validateRecurringPattern :: "RecurringPattern \<Rightarrow> string list" where
  "validateRecurringPattern p =
     (if frequency p = [] then [''Recurrence frequency is required''] else [])
     @ (if (case interval p of None \<Rightarrow> False | Some n \<Rightarrow> truthy n \<and> lessThanInt n 1)
        then [''Recurrence interval must be at least 1''] else [])
     @ (if (case daysOfWeek p of
              None \<Rightarrow> False
            | Some days \<Rightarrow> list_ex (\<lambda>day. lessThanInt day 0 \<or> greaterThanInt day 6) days)
        then [''Days of week must be between 0 (Sunday) and 6 (Saturday)''] else [])
     @ (if (case dayOfMonth p of
              None \<Rightarrow> False
            | Some n \<Rightarrow> truthy n \<and> (lessThanInt n 1 \<or> greaterThanInt n 31))
        then [''Day of month must be between 1 and 31''] else [])
     @ (if endDate p \<noteq> None \<and> (case occurrences p of None \<Rightarrow> False | Some n \<Rightarrow> truthy n)
        then [''Cannot specify both end date and number of occurrences''] else [])"

section \<open>Scenarios\<close>

text \<open>An attempt can be retried unless it failed with a client error other than 429.\<close>

definition retriable :: "RemoteOutcome \<Rightarrow> bool" where
  "retriable out = (case out of Reply r \<Rightarrow> False | Failed e \<Rightarrow> \<not> isClientError e)"

text \<open>A remote endpoint that cannot be reached, a service without and one with a credential,
  the state of a service just started, and the command of the documentation.\<close>

definition offline :: "nat \<Rightarrow> RemoteOutcome \<times> int" where
  "offline attempt = (Failed NetworkError, 250)"

definition offlineConfig :: Config where
  "offlineConfig = \<lparr>apiKey = [], cacheTtl = 3600, tzOffset = 0\<rparr>"

definition onlineConfig :: Config where
  "onlineConfig = \<lparr>apiKey = ''sk-or-key'', cacheTtl = 3600, tzOffset = 0\<rparr>"

definition startWorld :: World where
  "startWorld = \<lparr>cacheStore = emptyCache, rateLimitReset = 0, clock = 1000\<rparr>"

definition keyedByText :: "ParsedCommand MemoryCache \<Rightarrow> bool" where
  "keyedByText c =
     (\<forall>key entry. c key = Some entry \<longrightarrow> cacheKeyOf (originalText (data entry)) = key)"

definition exampleCommand :: string where
  "exampleCommand = ''Schedule a meeting with John tomorrow at 2pm''"

text \<open>A text with an end date and a number of occurrences.\<close>

definition bothClauses :: string where
  "bothClauses = ''every day until tomorrow for 3 times''"



definition everyDay :: RecurringPattern where
  "everyDay = \<lparr>frequency = DAILY, interval = Some (Finite 1), daysOfWeek = None,
                 dayOfMonth = None, endDate = None, occurrences = None\<rparr>"



section \<open>Evaluation of characters\<close>

text \<open>The same classes read off the bits of the character, for evaluation.\<close>

lemma isDigit_code [code]:
  "isDigit (Char b0 b1 b2 b3 b4 b5 b6 b7) =
     (\<not> b7 \<and> \<not> b6 \<and> b5 \<and> b4 \<and> \<not> (b3 \<and> (b2 \<or> b1)))"
  by (cases b0; cases b1; cases b2; cases b3; cases b4; cases b5; cases b6; cases b7;
      simp add: isDigit_def charCode_def)

lemma isUpper_code [code]:
  "isUpper (Char b0 b1 b2 b3 b4 b5 b6 b7) =
     (\<not> b7 \<and> b6 \<and> \<not> b5
      \<and> (if b4 then \<not> (b3 \<and> (b2 \<or> (b1 \<and> b0))) else (b3 \<or> b2 \<or> b1 \<or> b0)))"
  by (cases b0; cases b1; cases b2; cases b3; cases b4; cases b5; cases b6; cases b7;
      simp add: isUpper_def charCode_def)

lemma isLower_code [code]:
  "isLower (Char b0 b1 b2 b3 b4 b5 b6 b7) =
     (\<not> b7 \<and> b6 \<and> b5
      \<and> (if b4 then \<not> (b3 \<and> (b2 \<or> (b1 \<and> b0))) else (b3 \<or> b2 \<or> b1 \<or> b0)))"
  by (cases b0; cases b1; cases b2; cases b3; cases b4; cases b5; cases b6; cases b7;
      simp add: isLower_def charCode_def)

lemma isSpace_code [code]:
  "isSpace (Char b0 b1 b2 b3 b4 b5 b6 b7) =
     (\<not> b7 \<and> \<not> b6 \<and> \<not> b4
      \<and> (if b5 then \<not> b3 \<and> \<not> b2 \<and> \<not> b1 \<and> \<not> b0
          else b3 \<and> (if b2 then \<not> b1 else b1 \<or> b0)))"
  by (cases b0; cases b1; cases b2; cases b3; cases b4; cases b5; cases b6; cases b7;
      simp add: isSpace_def charCode_def)

lemma isWordChar_code [code]:
  "isWordChar (Char b0 b1 b2 b3 b4 b5 b6 b7) =
     (isDigit (Char b0 b1 b2 b3 b4 b5 b6 b7) \<or> isUpper (Char b0 b1 b2 b3 b4 b5 b6 b7)
      \<or> isLower (Char b0 b1 b2 b3 b4 b5 b6 b7)
      \<or> (b0 \<and> b1 \<and> b2 \<and> b3 \<and> b4 \<and> \<not> b5 \<and> b6 \<and> \<not> b7))"
  by (cases b0; cases b1; cases b2; cases b3; cases b4; cases b5; cases b6; cases b7;
      simp add: isWordChar_def charCode_def)

lemma isLineEnd_code [code]:
  "isLineEnd (Char b0 b1 b2 b3 b4 b5 b6 b7) =
     (\<not> b7 \<and> \<not> b6 \<and> \<not> b5 \<and> \<not> b4 \<and> b3 \<and> (if b2 then \<not> b1 \<and> b0 else b1 \<and> \<not> b0))"
  by (cases b0; cases b1; cases b2; cases b3; cases b4; cases b5; cases b6; cases b7;
      simp add: isLineEnd_def charCode_def)

lemma clearCaps_post [simp]: "post (clearCaps r s) = post s"
  by (simp add: clearCaps_def)

lemmas char_eval = isDigit_code isUpper_code isLower_code isSpace_code isWordChar_code
  isLineEnd_code toLower_def toUpper_def

lemmas rx_eval = rxExec_def rxTest_def matchAt_def mkMatch_def grp_def atBoundary_def inSet_def
  clearCaps_def RPlus_def RLazyPlus_def anyOf_def rDigit_def rDigits_def rDigit12_def rDigit2_def
  rDigit24_def rSp0_def rSp1_def rAnyStar_def rAmPm_def weekdayWords_def char_eval

section \<open>Calendar arithmetic\<close>

lemma MonthFromDay_range: "0 \<le> MonthFromDay d \<and> MonthFromDay d < 12"
  by (simp add: MonthFromDay_def Let_def)

lemma MakeDay_own: "MakeDay (YearFromDay d) (MonthFromDay d) (DateFromDay d + n) = d + n"
proof -
  have "MonthFromDay d div 12 = 0" "MonthFromDay d mod 12 = MonthFromDay d"
    using MonthFromDay_range [of d] by simp_all
  then show ?thesis
    by (simp add: MakeDay_def DateFromDay_def DayWithinYear_def Let_def)
qed

lemma MakeDate_Day: "MakeDate (Day t + n) (TimeWithinDay t) = t + n * msPerDay"
  by (simp add: MakeDate_def Day_def TimeWithinDay_def algebra_simps)

lemma tvSetDate_add: "tvSetDate t (tvDate t + n) = t + n * msPerDay"
  by (simp add: tvSetDate_def tvDate_def tvFullYear_def tvMonth_def MakeDay_own MakeDate_Day)

lemma ToInteger_of_int [simp]: "ToIntegerOrInfinity (real_of_int k) = k"
  by (simp add: ToIntegerOrInfinity_def)

lemma tvAddTime_Days: "tvAddTime t (real_of_int n) Days = t + n * msPerDay"
  using tvSetDate_add [of t n] ToInteger_of_int [of "tvDate t + n"] by simp

lemma tvAddTime_next_day: "tvAddTime t 1 Days = t + msPerDay"
  using tvAddTime_Days [of t 1] by simp

lemma Day_add: "Day (t + n * msPerDay) = Day t + n"
  by (simp add: Day_def msPerDay_def)


lemma tvSetHours_next_day:
  "tvSetHours (tvAddTime now 1 Days) 14 0 0 0 = (Day now + 1) * msPerDay + 14 * 3600000"
  unfolding tvAddTime_next_day using Day_add [of now 1]
  by (simp add: tvSetHours_def MakeDate_def MakeTime_def)

lemma div_step:
  fixes a k :: int
  assumes "0 < k"
  shows "(a + 1) div k = a div k + (if (a + 1) mod k = 0 then 1 else 0)"
proof -
  have r: "0 \<le> a mod k" "a mod k < k" using assms by simp_all
  have a: "a = k * (a div k) + a mod k" by simp
  show ?thesis
  proof (cases "a mod k + 1 = k")
    case True
    have "a + 1 = k * (a div k + 1) + 0"
      using a True by (metis add.assoc add.right_neutral distrib_left mult.right_neutral)
    then have "(a + 1) div k = a div k + 1" "(a + 1) mod k = 0"
      using assms int_div_pos_eq [of "a + 1" k "a div k + 1" 0]
            int_mod_pos_eq [of "a + 1" k "a div k + 1" 0] by simp_all
    then show ?thesis by simp
  next
    case False
    have e: "a + 1 = k * (a div k) + (a mod k + 1)" using a by linarith
    have b: "0 \<le> a mod k + 1" "a mod k + 1 < k" using r False by linarith+
    have "(a + 1) div k = a div k" "(a + 1) mod k = a mod k + 1"
      using int_div_pos_eq [OF e b] int_mod_pos_eq [OF e b] by simp_all
    then show ?thesis using r by simp
  qed
qed

lemma dvd_shift: "k dvd c \<Longrightarrow> (k dvd (y - c)) = (k dvd y)" for k c y :: int
  by (metis dvd_add_right_iff diff_add_cancel dvd_diff)

lemma div_step_shift:
  fixes y k c :: int
  assumes "0 < k" "k dvd (c - 1)"
  shows "(y + 1 - c) div k = (y - c) div k + (if y mod k = 0 then 1 else 0)"
proof -
  have e: "y - c + 1 = y - (c - 1)" by simp
  have "k dvd (y - c + 1) \<longleftrightarrow> k dvd y"
    unfolding e by (rule dvd_shift [OF assms(2)])
  then have m: "((y - c + 1) mod k = 0) = (y mod k = 0)"
    by (simp add: mod_eq_0_iff_dvd)
  have f: "y + 1 - c = y - c + 1" by simp
  have "(y - c + 1) div k = (y - c) div k + (if (y - c + 1) mod k = 0 then 1 else 0)"
    by (rule div_step [OF assms(1)])
  then show ?thesis unfolding f m .
qed

lemma DayFromYear_Suc:
  "DayFromYear (y + 1) = DayFromYear y + (if InLeapYear y then 366 else 365)"
proof -
  have 1: "(y + 1 - 1969) div 4 = (y - 1969) div 4 + (if y mod 4 = 0 then 1 else 0)"
    by (rule div_step_shift) simp_all
  have 2: "(y + 1 - 1901) div 100 = (y - 1901) div 100 + (if y mod 100 = 0 then 1 else 0)"
    by (rule div_step_shift) simp_all
  have 3: "(y + 1 - 1601) div 400 = (y - 1601) div 400 + (if y mod 400 = 0 then 1 else 0)"
    by (rule div_step_shift) simp_all
  have "(100::int) dvd 400" "(4::int) dvd 100" by simp_all
  then have 4: "y mod 400 = 0 \<Longrightarrow> y mod 100 = 0" "y mod 100 = 0 \<Longrightarrow> y mod 4 = 0"
    by (meson dvd_trans mod_0_imp_dvd dvd_imp_mod_0)+
  show ?thesis
  proof (cases "y mod 4 = 0")
    case False
    with 4 have "y mod 100 \<noteq> 0" "y mod 400 \<noteq> 0" by auto
    with False show ?thesis
      unfolding DayFromYear_def InLeapYear_def 1 2 3 by simp
  next
    case True
    show ?thesis
    proof (cases "y mod 100 = 0")
      case False
      with 4 have "y mod 400 \<noteq> 0" by auto
      with True False show ?thesis
        unfolding DayFromYear_def InLeapYear_def 1 2 3 by simp
    next
      case h: True
      with True show ?thesis
        unfolding DayFromYear_def InLeapYear_def 1 2 3 by (cases "y mod 400 = 0") simp_all
    qed
  qed
qed

subsection \<open>Years and months of a day\<close>

lemma div_bounds:
  fixes x k :: int
  assumes "0 < k"
  shows "k * (x div k) \<le> x" "x < k * (x div k) + k"
proof -
  have "x = k * (x div k) + x mod k" by simp
  moreover have "0 \<le> x mod k" "x mod k < k" using assms by simp_all
  ultimately show "k * (x div k) \<le> x" "x < k * (x div k) + k" by linarith+
qed

lemma DayFromYear_linear:
  "400 * DayFromYear y \<le> 146097 * (y - 1970) + 589"
  "146097 * (y - 1970) - 506 \<le> 400 * DayFromYear y"
proof -
  define a b c where "a = (y - 1969) div 4" and "b = (y - 1901) div 100" and "c = (y - 1601) div 400"
  have b4: "4 * a \<le> y - 1969" "y - 1969 < 4 * a + 4"
    unfolding a_def by (rule div_bounds, simp)+
  have b100: "100 * b \<le> y - 1901" "y - 1901 < 100 * b + 100"
    unfolding b_def by (rule div_bounds, simp)+
  have b400: "400 * c \<le> y - 1601" "y - 1601 < 400 * c + 400"
    unfolding c_def by (rule div_bounds, simp)+
  have D: "400 * DayFromYear y = 146000 * y - 287620000 + 400 * a - 400 * b + 400 * c"
    by (simp add: DayFromYear_def a_def b_def c_def algebra_simps)
  have u1: "400 * a \<le> 100 * y - 196900" using b4(1) by simp
  have u2: "4 * y - 8000 \<le> 400 * b" using b100(2) by simp
  have u3: "400 * c \<le> y - 1601" using b400(1) by simp
  have "400 * DayFromYear y
          \<le> 146000 * y - 287620000 + (100 * y - 196900) - (4 * y - 8000) + (y - 1601)"
    unfolding D using u1 u2 u3 by simp
  also have "\<dots> = 146097 * (y - 1970) + 589" by (simp add: algebra_simps)
  finally show "400 * DayFromYear y \<le> 146097 * (y - 1970) + 589" .
  have l1: "100 * y - 197200 \<le> 400 * a" using b4(2) by simp
  have l2: "400 * b \<le> 4 * y - 7604" using b100(1) by simp
  have l3: "y - 2000 \<le> 400 * c" using b400(2) by simp
  have "146097 * (y - 1970) - 506
          = 146000 * y - 287620000 + (100 * y - 197200) - (4 * y - 7604) + (y - 2000)"
    by (simp add: algebra_simps)
  also have "\<dots> \<le> 400 * DayFromYear y"
    unfolding D using l1 l2 l3 by simp
  finally show "146097 * (y - 1970) - 506 \<le> 400 * DayFromYear y" .
qed

lemma YearFromDay_bounds:
  "DayFromYear (YearFromDay d) \<le> d \<and> d < DayFromYear (YearFromDay d + 1)"
proof -
  define q where "q = (400 * d) div 146097"
  define y0 where "y0 = 1970 + q"
  have q: "146097 * q \<le> 400 * d" "400 * d < 146097 * q + 146097"
    unfolding q_def by (rule div_bounds, simp)+
  have "400 * DayFromYear (y0 - 1) \<le> 146097 * (y0 - 1 - 1970) + 589"
    by (rule DayFromYear_linear)
  also have "\<dots> = 146097 * q - 145508" by (simp add: y0_def algebra_simps)
  also have "\<dots> \<le> 400 * d" using q(1) by simp
  finally have a: "DayFromYear (y0 - 1) \<le> d" by simp
  have "400 * d < 146097 * q + 291688" using q(2) by simp
  also have "\<dots> = 146097 * (y0 + 2 - 1970) - 506" by (simp add: y0_def algebra_simps)
  also have "\<dots> \<le> 400 * DayFromYear (y0 + 2)" by (rule DayFromYear_linear)
  finally have b: "d < DayFromYear (y0 + 2)" by simp
  have e: "y0 + 1 + 1 = y0 + 2" "y0 - 1 + 1 = y0" by simp_all
  have Y: "YearFromDay d = (if d < DayFromYear y0 then y0 - 1
                            else if DayFromYear (y0 + 1) \<le> d then y0 + 1 else y0)"
    by (simp add: YearFromDay_def Let_def y0_def q_def)
  show ?thesis
    unfolding Y using a b by (auto simp: e)
qed




lemma monthStart_11: "monthStart lp 11 = 334 + (if lp then 1 else 0)" "monthStart lp 0 = 0"
  by (simp_all add: monthStart_def)






lemma DayWithinYear_bounds:
  "0 \<le> DayWithinYear d"
  "DayWithinYear d < 365 + (if InLeapYear (YearFromDay d) then 1 else 0)"
  using YearFromDay_bounds [of d] DayFromYear_Suc [of "YearFromDay d"]
  by (auto simp: DayWithinYear_def)

lemma first_of_month:
  "0 \<le> m \<Longrightarrow> m < 12 \<Longrightarrow> MakeDay 0 (12 * y + m) 1 = DayFromYear y + monthStart (InLeapYear y) m"
  by (simp add: MakeDay_def Let_def)

lemma first_of_next_year: "MakeDay 0 (12 * y + 12) 1 = DayFromYear (y + 1)"
proof -
  have "12 * y + 12 = 12 * (y + 1) + 0" by simp
  then show ?thesis
    using first_of_month [of 0 "y + 1"] by (simp add: monthStart_11)
qed

lemma month_of_day:
  "MakeDay 0 (12 * YearFromDay d + MonthFromDay d) 1 \<le> d
   \<and> d < MakeDay 0 (12 * YearFromDay d + MonthFromDay d + 1) 1"
proof -
  define lp where "lp = InLeapYear (YearFromDay d)"
  define w where "w = DayWithinYear d"
  have w: "0 \<le> w" "w < 365 + (if lp then 1 else 0)"
    unfolding w_def lp_def by (rule DayWithinYear_bounds)+
  have d: "d = DayFromYear (YearFromDay d) + w"
    by (simp add: w_def DayWithinYear_def)
  have M: "MonthFromDay d =
     (if w < monthStart lp 1 then 0 else if w < monthStart lp 2 then 1
      else if w < monthStart lp 3 then 2 else if w < monthStart lp 4 then 3
      else if w < monthStart lp 5 then 4 else if w < monthStart lp 6 then 5
      else if w < monthStart lp 7 then 6 else if w < monthStart lp 8 then 7
      else if w < monthStart lp 9 then 8 else if w < monthStart lp 10 then 9
      else if w < monthStart lp 11 then 10 else 11)"
    by (simp add: MonthFromDay_def Let_def lp_def w_def)
  have r: "0 \<le> MonthFromDay d" "MonthFromDay d < 12"
    using MonthFromDay_range [of d] by simp_all
  have lo: "monthStart lp (MonthFromDay d) \<le> w"
    unfolding M using w(1) by (auto simp: monthStart_def)
  have hi: "MonthFromDay d < 11 \<Longrightarrow> w < monthStart lp (MonthFromDay d + 1)"
    unfolding M by (auto split: if_splits)
  have lower: "MakeDay 0 (12 * YearFromDay d + MonthFromDay d) 1 \<le> d"
    using first_of_month [OF r, of "YearFromDay d"] lo d by (simp add: lp_def)
  have upper: "d < MakeDay 0 (12 * YearFromDay d + MonthFromDay d + 1) 1"
  proof (cases "MonthFromDay d < 11")
    case True
    then have "0 \<le> MonthFromDay d + 1" "MonthFromDay d + 1 < 12" using r by simp_all
    from first_of_month [OF this, of "YearFromDay d"] hi [OF True] d
    show ?thesis by (simp add: lp_def add.assoc)
  next
    case False
    with r have e: "MonthFromDay d = 11" by simp
    have "d < DayFromYear (YearFromDay d + 1)" using YearFromDay_bounds [of d] by simp
    moreover have "12 * YearFromDay d + MonthFromDay d + 1 = 12 * YearFromDay d + 12"
      by (simp add: e)
    ultimately show ?thesis using first_of_next_year [of "YearFromDay d"] by (simp only:)
  qed
  from lower upper show ?thesis ..
qed


lemma DateFromDay_eq:
  "DateFromDay d = d - MakeDay 0 (12 * YearFromDay d + MonthFromDay d) 1 + 1"
  using first_of_month [of "MonthFromDay d" "YearFromDay d"] MonthFromDay_range [of d]
  by (simp add: DateFromDay_def DayWithinYear_def)









lemma tvDate_positive: "1 \<le> tvDate t"
  using month_of_day [of "Day t"] by (simp add: tvDate_def DateFromDay_eq)


section \<open>The cache\<close>

text \<open>
  C7. For every key, value and positive ttl: a \<open>get\<close> that follows \<open>set(k, v, ttl)\<close> at
  once, or at any time up to the ttl, returns the value \<open>v\<close> and leaves the cache as it
  is; once the age of the entry strictly exceeds its ttl, \<open>get\<close> deletes the entry and
  returns undefined.
\<close>

theorem cache_set_then_get:
  "0 < ttlSec \<Longrightarrow>
     (\<forall>later. now \<le> later \<and> later \<le> now + ttlSec * 1000 \<longrightarrow>
        cacheGet later k (cacheSet cfgTtl now k v (Some ttlSec) c)
          = (Some v, cacheSet cfgTtl now k v (Some ttlSec) c))
     \<and> (\<forall>later. ttlSec * 1000 < later - now \<longrightarrow>
        cacheGet later k (cacheSet cfgTtl now k v (Some ttlSec) c)
          = (None, (cacheSet cfgTtl now k v (Some ttlSec) c)(k := None)))"
  by (auto simp: cacheGet_def cacheSet_def)

theorem cache_set_then_get_witness:
  "(0::int) < 5
   \<and> cacheGet 1000 ''k'' (cacheSet 3600 1000 ''k'' (7::nat) (Some 5) emptyCache)
       = (Some 7, cacheSet 3600 1000 ''k'' 7 (Some 5) emptyCache)
   \<and> fst (cacheGet 6001 ''k'' (cacheSet 3600 1000 ''k'' (7::nat) (Some 5) emptyCache)) = None
   \<and> snd (cacheGet 6001 ''k'' (cacheSet 3600 1000 ''k'' (7::nat) (Some 5) emptyCache)) ''k'' = None"
  using cache_set_then_get [of 5 1000 "''k''" 3600 "7::nat" emptyCache]
  by simp

section \<open>Remote failure\<close>

lemma parseWithAIFrom_all_fail:
  "\<forall>k\<in>{1..maxRetries}. retriable (fst (remote k)) \<Longrightarrow> 1 \<le> attempt \<Longrightarrow> attempt \<le> maxRetries
     \<Longrightarrow> \<exists>e w'. parseWithAIFrom cfg remote input attempt w = (Inl e, w')"
proof (induction cfg remote input attempt w rule: parseWithAIFrom.induct)
  case (1 cfg remote input attempt w)
  from "1.prems" have "retriable (fst (remote attempt))" by simp
  then obtain e where e: "fst (remote attempt) = Failed e" "\<not> isClientError e"
    by (auto simp: retriable_def split: RemoteOutcome.splits)
  show ?case
  proof (cases "attempt < maxRetries")
    case True
    let ?w2 = "noteRateLimit e (w\<lparr>clock := clock w + snd (remote attempt)\<rparr>)"
    have "\<exists>e' w'. parseWithAIFrom cfg remote input (attempt + 1)
                     (?w2\<lparr>clock := clock ?w2 + retryDelay * int attempt\<rparr>) = (Inl e', w')"
      using "1.IH" [OF _ refl e(1) refl e(2) True] "1.prems" True by simp
    then show ?thesis
      using e True "1.prems"(3) by (subst parseWithAIFrom.simps) (simp add: Let_def)
  next
    case False
    then show ?thesis
      using e "1.prems"(3) by (subst parseWithAIFrom.simps) (simp add: Let_def)
  qed
qed

lemma parseWithAI_all_fail:
  assumes "\<forall>k\<in>{1..maxRetries}. retriable (fst (remote k))"
  shows "\<exists>e w'. parseWithAI cfg remote input w = (Inl e, w')"
  unfolding parseWithAI_def
  using parseWithAIFrom_all_fail [OF assms, of 1] by (simp add: maxRetries_def)

text \<open>
  C1. If the remote client is configured, the cache has no live entry for the text, and every
  remote attempt fails with an error that is retried, then \<open>parseCommand\<close> resolves, and the
  command it resolves with is the local parse of that text, taken when the attempts have
  failed; it never rejects with the remote error.
\<close>

theorem remote_failure_falls_back:
  assumes "apiKey cfg \<noteq> []"
    and "fst (cacheGet (clock w) (cacheKeyOf input) (cacheStore w)) = None"
    and "\<forall>k\<in>{1..maxRetries}. retriable (fst (remote k))"
  shows "fst (parseCommand cfg remote input w)
           = Inr (fallbackParse (localNow cfg (snd (parseCommand cfg remote input w))) input)"
proof -
  obtain store where g: "cacheGet (clock w) (cacheKeyOf input) (cacheStore w) = (None, store)"
    using assms(2) by (cases "cacheGet (clock w) (cacheKeyOf input) (cacheStore w)") auto
  obtain e w' where f: "parseWithAI cfg remote input (w\<lparr>cacheStore := store\<rparr>) = (Inl e, w')"
    using parseWithAI_all_fail [OF assms(3)] by blast
  show ?thesis
    using assms(1) g f by (simp add: parseCommand_def Let_def)
qed

lemma hello_parse:
  "fallbackParse now ''hello''
     = \<lparr>intent = UNKNOWN, entities = noEntities, confidence = 0.3, originalText = ''hello''\<rparr>"
proof -
  have "detectIntent (trim (toLowerCase ''hello'')) = UNKNOWN" by code_simp
  moreover have "extractTime ''hello'' = None" by code_simp
  moreover have "firstDate datePatterns now ''hello'' = None"
    by (simp add: datePatterns_def rx_eval)
  moreover have "firstDuration durationPatterns ''hello'' = None" by code_simp
  moreover have "extractAttendees ''hello'' = []" by code_simp
  moreover have "extractLocation ''hello'' = None" by code_simp
  moreover have "rxTest True recurrenceWords ''hello'' = False" by code_simp
  ultimately show ?thesis
    by (simp add: fallbackParse_def extractEntities_def extractDateTime_def
          extractRecurringPattern_def noEntities_def)
qed

theorem remote_failure_falls_back_witness:
  "apiKey onlineConfig \<noteq> []
   \<and> fst (cacheGet (clock startWorld) (cacheKeyOf ''hello'') (cacheStore startWorld)) = None
   \<and> retriable (fst (offline 1)) \<and> retriable (fst (offline 2)) \<and> retriable (fst (offline 3))
   \<and> fst (parseCommand onlineConfig offline ''hello'' startWorld)
       = Inr \<lparr>intent = UNKNOWN, entities = noEntities, confidence = 0.3, originalText = ''hello''\<rparr>"
proof -
  have a: "apiKey onlineConfig \<noteq> []" by (simp add: onlineConfig_def)
  have b: "fst (cacheGet (clock startWorld) (cacheKeyOf ''hello'') (cacheStore startWorld)) = None"
    by (simp add: cacheGet_def startWorld_def emptyCache_def)
  have c: "\<forall>k\<in>{1..maxRetries}. retriable (fst (offline k))"
    by (simp add: offline_def retriable_def isClientError_def)
  show ?thesis
    using a b c remote_failure_falls_back [OF a b c]
    by (simp add: hello_parse maxRetries_def)
qed

section \<open>The original text and the cache\<close>

lemma fallbackParse_originalText [simp]: "originalText (fallbackParse now input) = input"
  by (simp add: fallbackParse_def Let_def)

lemma noteRateLimit_store [simp]: "cacheStore (noteRateLimit e w) = cacheStore w"
  by (simp add: noteRateLimit_def split: RemoteError.splits)

lemma parseWithAIFrom_result:
  "parseWithAIFrom cfg remote input attempt w = (r, w')
     \<Longrightarrow> cacheStore w' = cacheStore w \<and> (\<forall>pc. r = Inr pc \<longrightarrow> originalText pc = input)"
proof (induction cfg remote input attempt w rule: parseWithAIFrom.induct)
  case (1 cfg remote input attempt w)
  note run = "1.prems" [unfolded parseWithAIFrom.simps [of cfg remote input attempt w]]
  show ?case
  proof (cases "attempt \<le> maxRetries")
    case False
    with run show ?thesis by auto
  next
    case inRange: True
    show ?thesis
    proof (cases "fst (remote attempt)")
      case (Reply aiResponse)
      with run inRange show ?thesis
        by (auto simp: Let_def validateAndTransformAIResponse_def)
    next
      case (Failed e)
      show ?thesis
      proof (cases "\<not> isClientError e \<and> attempt < maxRetries")
        case True
        let ?w1 = "w\<lparr>clock := clock w + snd (remote attempt)\<rparr>"
        let ?w2 = "noteRateLimit e ?w1"
        from run inRange Failed True
        have "parseWithAIFrom cfg remote input (attempt + 1)
                (?w2\<lparr>clock := clock ?w2 + retryDelay * int attempt\<rparr>) = (r, w')"
          by (simp add: Let_def)
        from "1.IH" [OF inRange refl Failed refl _ _ this] True
        show ?thesis by simp
      next
        case False
        with run inRange Failed show ?thesis
          by (auto simp: Let_def split: if_splits)
      qed
    qed
  qed
qed

lemma cacheGet_cases:
  obtains (miss) store where "cacheGet now key c = (None, store)"
      "\<And>k e. store k = Some e \<Longrightarrow> c k = Some e"
    | (hit) entry where "cacheGet now key c = (Some (data entry), c)" "c key = Some entry"
proof (cases "c key")
  case None
  then have "cacheGet now key c = (None, c)" by (simp add: cacheGet_def)
  then show ?thesis by (rule miss) simp
next
  case (Some entry)
  show ?thesis
  proof (cases "now > timestamp entry + ttl entry")
    case True
    with Some have "cacheGet now key c = (None, c(key := None))" by (simp add: cacheGet_def)
    then show ?thesis by (rule miss) (simp split: if_splits)
  next
    case False
    with Some have "cacheGet now key c = (Some (data entry), c)" by (simp add: cacheGet_def)
    then show ?thesis using Some by (rule hit)
  qed
qed

lemma keyedByText_sub:
  "keyedByText c \<Longrightarrow> (\<And>k e. store k = Some e \<Longrightarrow> c k = Some e) \<Longrightarrow> keyedByText store"
  by (auto simp: keyedByText_def)

lemma keyedByText_set:
  "keyedByText c \<Longrightarrow> originalText pc = input
     \<Longrightarrow> keyedByText (cacheSet cfgTtl now (cacheKeyOf input) pc ttlArg c)"
  by (auto simp: keyedByText_def cacheSet_def)

lemma parseCommand_originalText:
  assumes inv: "keyedByText (cacheStore w)"
  shows "\<exists>pc. fst (parseCommand cfg remote input w) = Inr pc
           \<and> (fst (cacheGet (clock w) (cacheKeyOf input) (cacheStore w)) = None
                \<longrightarrow> originalText pc = input)
           \<and> (\<forall>stored. fst (cacheGet (clock w) (cacheKeyOf input) (cacheStore w)) = Some stored
                \<longrightarrow> pc = stored)
           \<and> cacheKeyOf (originalText pc) = cacheKeyOf input
           \<and> keyedByText (cacheStore (snd (parseCommand cfg remote input w)))"
proof (cases "clock w" "cacheKeyOf input" "cacheStore w" rule: cacheGet_cases)
  case (hit entry)
  with inv show ?thesis
    by (auto simp: parseCommand_def keyedByText_def)
next
  case (miss store)
  from inv miss(2) have st: "keyedByText store" by (rule keyedByText_sub)
  let ?w0 = "w\<lparr>cacheStore := store\<rparr>"
  obtain r w1 where ai: "parseWithAI cfg remote input ?w0 = (r, w1)"
    by (cases "parseWithAI cfg remote input ?w0")
  from parseWithAIFrom_result [OF ai [unfolded parseWithAI_def]]
  have w1: "cacheStore w1 = store" and r: "\<And>pc. r = Inr pc \<Longrightarrow> originalText pc = input"
    by simp_all
  show ?thesis
  proof (cases r)
    case (Inl e)
    with miss(1) ai st w1 show ?thesis
      by (simp add: parseCommand_def Let_def keyedByText_set)
  next
    case (Inr pc)
    with miss(1) ai st w1 r [OF Inr] show ?thesis
      by (auto simp: parseCommand_def Let_def keyedByText_set)
  qed
qed

section \<open>The command of the documentation, and the empty command\<close>

lemma ex_intent: "detectIntent (trim (toLowerCase exampleCommand)) = CREATE_EVENT"
  unfolding exampleCommand_def by code_simp

lemma ex_time: "extractTime exampleCommand = Some (Some 14, Some 0)"
  unfolding exampleCommand_def by code_simp

lemma ex_tomorrow:
  "rxExec True (seqs [RWordB, RLit ''tomorrow'', RWordB]) exampleCommand
     = Some \<lparr>m_index = 29, m_text = ''tomorrow'', m_caps = []\<rparr>"
  unfolding exampleCommand_def by code_simp

lemma ex_date: "firstDate datePatterns now exampleCommand = Some (Instant (tvAddTime now 1 Days))"
  by (simp add: datePatterns_def ex_tomorrow del: seqs.simps)

lemma ex_duration: "firstDuration durationPatterns exampleCommand = None"
  unfolding exampleCommand_def by code_simp

lemma ex_meeting: "includesStr exampleCommand ''meeting''"
  unfolding exampleCommand_def by code_simp

lemma ex_title: "extractTitle exampleCommand = ''a''"
  unfolding exampleCommand_def by code_simp

lemma ex_with:
  "map_option (\<lambda>m. grp m 1) (rxExec True withPattern exampleCommand) = Some (Some ''John tomorrow'')"
  unfolding exampleCommand_def by code_simp

lemma ex_attendees: "extractAttendees exampleCommand = []"
  unfolding exampleCommand_def by code_simp

lemma ex_location: "extractLocation exampleCommand = None"
  unfolding exampleCommand_def by code_simp

lemma ex_recurrence: "rxTest True recurrenceWords exampleCommand = False"
  unfolding exampleCommand_def by code_simp

lemma ex_dateTime:
  "extractDateTime now exampleCommand
     = \<lparr>r_dateTime = Some (Instant ((Day now + 1) * msPerDay + 14 * 3600000)),
        r_duration = Some 60\<rparr>"
  by (simp add: extractDateTime_def ex_time ex_date ex_duration ex_meeting tvSetHours_next_day
        del: tvAddTime.simps)

lemma ex_fallback:
  "fallbackParse now exampleCommand =
     \<lparr>intent = CREATE_EVENT,
      entities = \<lparr>dateTime = Some (Instant ((Day now + 1) * msPerDay + 14 * 3600000)),
                  duration = Some 60, title = Some ''a'', attendees = None, location = None,
                  description = None, contactName = None, timeRange = None,
                  recurringPattern = None, eventId = None, reminderTime = None,
                  reminderType = None\<rparr>,
      confidence = 0.6, originalText = exampleCommand\<rparr>"
  by (simp add: fallbackParse_def extractEntities_def ex_intent ex_dateTime ex_title ex_attendees
        ex_location extractRecurringPattern_def ex_recurrence)

text \<open>
  C2. The command of the documentation, parsed without a credential and with an empty cache:
  the intent is \<open>CREATE_EVENT\<close>, the date is the day after the reference instant at 14:00
  local time, the duration is 60 and the confidence 0.6; but the attendees are absent: the
  pattern, matching without regard to case, takes \<open>John tomorrow\<close> as one name, and the
  filter of time words drops it.
\<close>

theorem example_command_loses_attendee:
  "fst (parseCommand \<lparr>apiKey = [], cacheTtl = ttlSec, tzOffset = 0\<rparr> remote exampleCommand
          \<lparr>cacheStore = emptyCache, rateLimitReset = reset, clock = now\<rparr>)
     = Inr \<lparr>intent = CREATE_EVENT,
            entities = \<lparr>dateTime = Some (Instant ((Day now + 1) * msPerDay + 14 * 3600000)),
                        duration = Some 60, title = Some ''a'', attendees = None, location = None,
                        description = None, contactName = None, timeRange = None,
                        recurringPattern = None, eventId = None, reminderTime = None,
                        reminderType = None\<rparr>,
            confidence = 0.6, originalText = exampleCommand\<rparr>"
  by (simp add: parseCommand_def Let_def cacheGet_def emptyCache_def localNow_def ex_fallback)

theorem example_command_loses_attendee_witness:
  "fst (parseCommand offlineConfig offline ''Schedule a meeting with John tomorrow at 2pm'' startWorld)
     = Inr \<lparr>intent = CREATE_EVENT,
            entities = \<lparr>dateTime = Some (Instant 136800000),
                        duration = Some 60, title = Some ''a'', attendees = None, location = None,
                        description = None, contactName = None, timeRange = None,
                        recurringPattern = None, eventId = None, reminderTime = None,
                        reminderType = None\<rparr>,
            confidence = 0.6, originalText = ''Schedule a meeting with John tomorrow at 2pm''\<rparr>"
  using example_command_loses_attendee [of 3600 offline 0 1000]
  by (simp add: offlineConfig_def startWorld_def exampleCommand_def Day_def msPerDay_def)

lemma empty_parse:
  "fallbackParse now [] = \<lparr>intent = UNKNOWN, entities = noEntities, confidence = 0.3, originalText = []\<rparr>"
proof -
  have "detectIntent (trim (toLowerCase [])) = UNKNOWN" by code_simp
  moreover have "extractTime [] = None" by code_simp
  moreover have "firstDate datePatterns now [] = None"
    by (simp add: datePatterns_def rx_eval)
  moreover have "firstDuration durationPatterns [] = None" by code_simp
  moreover have "extractAttendees [] = []" by code_simp
  moreover have "extractLocation [] = None" by code_simp
  moreover have "rxTest True recurrenceWords [] = False" by code_simp
  ultimately show ?thesis
    by (simp add: fallbackParse_def extractEntities_def extractDateTime_def
          extractRecurringPattern_def noEntities_def)
qed

lemma keyedByText_empty: "keyedByText emptyCache"
  by (simp add: keyedByText_def emptyCache_def)

text \<open>The claim as stated fails: the empty string is parsed like any text.\<close>

theorem empty_input_resolves_counterexample:
  "fst (parseCommand offlineConfig offline [] startWorld)
     = Inr \<lparr>intent = UNKNOWN, entities = noEntities, confidence = 0.3, originalText = []\<rparr>"
  by (simp add: parseCommand_def Let_def offlineConfig_def startWorld_def cacheGet_def emptyCache_def
        localNow_def empty_parse)

text \<open>
  C4. (amended) \<open>parseCommand\<close> applied to the empty string does not reject: it resolves with
  a command, and the local parse of the empty text has the intent \<open>UNKNOWN\<close>, the confidence
  0.3, no entity and the empty original text.
\<close>

theorem empty_input_resolves:
  "(\<exists>pc. fst (parseCommand cfg remote [] w) = Inr pc)
   \<and> fallbackParse now []
       = \<lparr>intent = UNKNOWN, entities = noEntities, confidence = 0.3, originalText = []\<rparr>"
proof -
  obtain r w' where p: "parseCommand cfg remote [] w = (r, w')"
    by (cases "parseCommand cfg remote [] w")
  have "\<exists>pc. r = Inr pc"
    using p by (auto simp: parseCommand_def Let_def split: prod.splits option.splits if_splits sum.splits)
  with p show ?thesis by (simp add: empty_parse)
qed

lemma hi_parse:
  "fallbackParse now ''Hi''
     = \<lparr>intent = UNKNOWN, entities = noEntities, confidence = 0.3, originalText = ''Hi''\<rparr>"
proof -
  have "detectIntent (trim (toLowerCase ''Hi'')) = UNKNOWN" by code_simp
  moreover have "extractTime ''Hi'' = None" by code_simp
  moreover have "firstDate datePatterns now ''Hi'' = None"
    by (simp add: datePatterns_def rx_eval)
  moreover have "firstDuration durationPatterns ''Hi'' = None" by code_simp
  moreover have "extractAttendees ''Hi'' = []" by code_simp
  moreover have "extractLocation ''Hi'' = None" by code_simp
  moreover have "rxTest True recurrenceWords ''Hi'' = False" by code_simp
  ultimately show ?thesis
    by (simp add: fallbackParse_def extractEntities_def extractDateTime_def
          extractRecurringPattern_def noEntities_def)
qed

lemma hi_keys: "cacheKeyOf ''Hi'' = ''nlp:hi''" "cacheKeyOf ''hi'' = ''nlp:hi''"
  by code_simp+

text \<open>The claim as stated fails: after \<open>Hi\<close>, the call with \<open>hi\<close> is answered from the cache
  with the original text \<open>Hi\<close>.\<close>

theorem cached_text_counterexample:
  "fst (parseCommand offlineConfig offline ''hi''
          (snd (parseCommand offlineConfig offline ''Hi'' startWorld)))
     = Inr \<lparr>intent = UNKNOWN, entities = noEntities, confidence = 0.3, originalText = ''Hi''\<rparr>"
  by (simp add: parseCommand_def Let_def offlineConfig_def startWorld_def cacheGet_def cacheSet_def
        emptyCache_def localNow_def hi_parse hi_keys)

text \<open>
  C9. (amended) In a cache whose entries are stored under the key of their original text,
  \<open>parseCommand\<close> resolves with a command whose original text is the input itself when the
  lookup misses; when the lookup hits, it is the stored command, unchanged, whose original
  text is the text of the first caller: equal to the input once both are lower-cased and
  trimmed, not always equal to it. The cache stays keyed that way.
\<close>

theorem original_text_miss_and_hit:
  assumes inv: "keyedByText (cacheStore w)"
  shows "\<exists>pc. fst (parseCommand cfg remote input w) = Inr pc
           \<and> (fst (cacheGet (clock w) (cacheKeyOf input) (cacheStore w)) = None
                \<longrightarrow> originalText pc = input)
           \<and> (\<forall>stored. fst (cacheGet (clock w) (cacheKeyOf input) (cacheStore w)) = Some stored
                \<longrightarrow> pc = stored)
           \<and> cacheKeyOf (originalText pc) = cacheKeyOf input
           \<and> keyedByText (cacheStore (snd (parseCommand cfg remote input w)))"
  using inv by (rule parseCommand_originalText)

theorem original_text_miss_and_hit_witness:
  "keyedByText (cacheStore startWorld)
   \<and> fst (cacheGet (clock startWorld) (cacheKeyOf ''Hi'') (cacheStore startWorld)) = None
   \<and> (\<exists>pc. fst (parseCommand offlineConfig offline ''Hi'' startWorld) = Inr pc
            \<and> originalText pc = ''Hi'')"
proof -
  have a: "keyedByText (cacheStore startWorld)"
    by (simp add: startWorld_def keyedByText_empty)
  have b: "fst (cacheGet (clock startWorld) (cacheKeyOf ''Hi'') (cacheStore startWorld)) = None"
    by (simp add: cacheGet_def startWorld_def emptyCache_def)
  from original_text_miss_and_hit [OF a, of offlineConfig offline "''Hi''"] a b
  show ?thesis by auto
qed

section \<open>The recurrence extractor\<close>

lemma both_words: "rxTest True recurrenceWords bothClauses"
  unfolding bothClauses_def by code_simp

lemma both_frequency: "extractFrequency bothClauses = DAILY"
  unfolding bothClauses_def by code_simp

lemma both_interval: "rxExec True intervalPattern bothClauses = None"
  unfolding bothClauses_def by code_simp

lemma both_count: "capturedInt occurrencesPattern bothClauses = Some (Finite 3)"
  unfolding bothClauses_def by code_simp

lemma both_until:
  "rxExec True untilPattern bothClauses
     = Some \<lparr>m_index = 10, m_text = ''until tomorrow for 3 times'',
             m_caps = [(1, ''tomorrow for 3 times'')]\<rparr>"
  unfolding bothClauses_def by code_simp

lemma tomorrow_time: "extractTime ''tomorrow for 3 times'' = None"
  by code_simp

lemma tomorrow_match:
  "rxExec True (seqs [RWordB, RLit ''tomorrow'', RWordB]) ''tomorrow for 3 times''
     = Some \<lparr>m_index = 0, m_text = ''tomorrow'', m_caps = []\<rparr>"
  by code_simp

lemma tomorrow_date:
  "firstDate datePatterns now ''tomorrow for 3 times'' = Some (Instant (tvAddTime now 1 Days))"
  by (simp add: datePatterns_def tomorrow_match del: seqs.simps tvAddTime.simps)

lemma both_end: "untilDate now bothClauses = Some (Instant (now + msPerDay))"
  by (simp add: untilDate_def both_until grp_def extractDateTime_def tomorrow_time tomorrow_date
        tvAddTime_next_day del: tvAddTime.simps)

lemma both_pattern:
  "extractRecurringPattern now bothClauses
     = Some \<lparr>frequency = DAILY, interval = Some (Finite 1), daysOfWeek = None, dayOfMonth = None,
             endDate = Some (Instant (now + msPerDay)), occurrences = Some (Finite 3)\<rparr>"
  by (simp add: extractRecurringPattern_def both_words both_frequency both_interval both_count
        both_end DAILY_def WEEKLY_def MONTHLY_def)

text \<open>
  C3. A text with an \<open>until\<close> clause and a \<open>for N times\<close> clause: the local recurrence
  extractor sets both the end date and the occurrences of the pattern, and the validator
  of recurring patterns refuses the pattern for that reason.
\<close>

theorem until_and_count_both_set:
  "extractRecurringPattern now bothClauses
     = Some \<lparr>frequency = DAILY, interval = Some (Finite 1), daysOfWeek = None, dayOfMonth = None,
             endDate = Some (Instant (now + msPerDay)), occurrences = Some (Finite 3)\<rparr>
   \<and> map_option validateRecurringPattern (extractRecurringPattern now bothClauses)
       = Some [''Cannot specify both end date and number of occurrences'']"
  by (simp add: both_pattern validateRecurringPattern_def DAILY_def truthy_def)

theorem until_and_count_both_set_witness:
  "extractRecurringPattern 0 bothClauses
     = Some \<lparr>frequency = DAILY, interval = Some (Finite 1), daysOfWeek = None, dayOfMonth = None,
             endDate = Some (Instant 86400000), occurrences = Some (Finite 3)\<rparr>
   \<and> map_option validateRecurringPattern (extractRecurringPattern 0 bothClauses)
       = Some [''Cannot specify both end date and number of occurrences'']"
  using until_and_count_both_set [of 0] unfolding msPerDay_def add_0 .

subsection \<open>What a match of the interval clause captures\<close>

























section \<open>The next occurrence of a weekly pattern\<close>






lemma frequency_distinct [simp]:
  "DAILY \<noteq> WEEKLY" "DAILY \<noteq> MONTHLY" "DAILY \<noteq> YEARLY" "WEEKLY \<noteq> MONTHLY" "WEEKLY \<noteq> YEARLY"
  "MONTHLY \<noteq> YEARLY" "WEEKLY \<noteq> DAILY" "MONTHLY \<noteq> DAILY" "YEARLY \<noteq> DAILY" "MONTHLY \<noteq> WEEKLY"
  "YEARLY \<noteq> WEEKLY" "YEARLY \<noteq> MONTHLY"
  by (simp_all add: DAILY_def WEEKLY_def MONTHLY_def YEARLY_def)






section \<open>The occurrences in a range\<close>

lemma occurrencesLoop_inv:
  assumes run: "occurrencesLoop p rs re cur cnt acc = Some ys"
  shows "\<exists>new. ys = acc @ new \<and> (\<forall>d\<in>set new. dateLeq rs d \<and> dateLeq d re)
           \<and> (\<forall>x. occurrences p = Some (Finite x) \<and> x \<noteq> 0
                  \<longrightarrow> int (length new) \<le> max 0 (\<lceil>x\<rceil> - cnt))
           \<and> (occurrences p = Some NegInfinity \<longrightarrow> new = [])"
proof (rule occurrencesLoop.raw_induct
    [where P = "\<lambda>p rs re cur cnt acc ys.
       \<exists>new. ys = acc @ new \<and> (\<forall>d\<in>set new. dateLeq rs d \<and> dateLeq d re)
           \<and> (\<forall>x. occurrences p = Some (Finite x) \<and> x \<noteq> 0
                  \<longrightarrow> int (length new) \<le> max 0 (\<lceil>x\<rceil> - cnt))
           \<and> (occurrences p = Some NegInfinity \<longrightarrow> new = [])",
     OF _ run], goal_cases)
  case (1 loop p rs re cur cnt acc ys)
  note IH = 1(1) and body = 1(2)
  show ?case
  proof (cases "dateLeq cur re \<and> \<not> occurrencesReached p cnt \<and> \<not> pastEndDate p cur")
    case False
    with body have "ys = acc" by (auto split: if_splits)
    then show ?thesis by simp
  next
    case True
    let ?acc' = "if dateLeq rs cur then acc @ [cur] else acc"
    from body True
    have run: "Option.bind (getNextOccurrence cur p cur)
                 (\<lambda>next. case next of None \<Rightarrow> Some ?acc'
                          | Some n \<Rightarrow> if dateLeq n cur then Some ?acc'
                                      else loop p rs re n (cnt + 1) ?acc') = Some ys"
      by (simp add: Let_def split del: if_split)
    have small: "\<exists>new. ?acc' = acc @ new \<and> (\<forall>d\<in>set new. dateLeq rs d \<and> dateLeq d re)
                   \<and> length new \<le> 1"
      using True by auto
    have cap: "occurrences p = Some (Finite x) \<Longrightarrow> x \<noteq> 0 \<Longrightarrow> cnt < \<lceil>x\<rceil>" for x
      using True by (auto simp: occurrencesReached_def truthy_def less_ceiling_iff)
    have unbounded: "occurrences p \<noteq> Some NegInfinity"
      using True by (auto simp: occurrencesReached_def truthy_def)
    from run obtain nxt where nxt: "getNextOccurrence cur p cur = Some nxt"
      and rest: "(case nxt of None \<Rightarrow> Some ?acc'
                  | Some n \<Rightarrow> if dateLeq n cur then Some ?acc'
                              else loop p rs re n (cnt + 1) ?acc') = Some ys"
      by (auto simp: bind_eq_Some_conv)
    show ?thesis
    proof (cases "\<exists>n. nxt = Some n \<and> \<not> dateLeq n cur")
      case False
      with rest have "ys = ?acc'" by (auto split: option.splits if_splits)
      with small cap unbounded show ?thesis by fastforce
    next
      case True
      then obtain n where "loop p rs re n (cnt + 1) ?acc' = Some ys"
        using rest by auto
      from IH [OF this] obtain new where
        new: "ys = ?acc' @ new" "\<forall>d\<in>set new. dateLeq rs d \<and> dateLeq d re"
          "\<forall>x. occurrences p = Some (Finite x) \<and> x \<noteq> 0
               \<longrightarrow> int (length new) \<le> max 0 (\<lceil>x\<rceil> - (cnt + 1))"
        by blast
      from small obtain one where one: "?acc' = acc @ one" "\<forall>d\<in>set one. dateLeq rs d \<and> dateLeq d re"
          "length one \<le> 1" by blast
      have "ys = acc @ (one @ new)" using new(1) one(1) by simp
      moreover have "\<forall>d\<in>set (one @ new). dateLeq rs d \<and> dateLeq d re"
        using new(2) one(2) by auto
      moreover have "\<forall>x. occurrences p = Some (Finite x) \<and> x \<noteq> 0
                        \<longrightarrow> int (length (one @ new)) \<le> max 0 (\<lceil>x\<rceil> - cnt)"
      proof (intro allI impI)
        fix x assume h: "occurrences p = Some (Finite x) \<and> x \<noteq> 0"
        then have "cnt < \<lceil>x\<rceil>" using cap by blast
        moreover have "int (length new) \<le> max 0 (\<lceil>x\<rceil> - (cnt + 1))" using new(3) h by simp
        ultimately show "int (length (one @ new)) \<le> max 0 (\<lceil>x\<rceil> - cnt)"
          using one(3) by simp
      qed
      ultimately show ?thesis using unbounded by blast
    qed
  qed
qed

text \<open>
  C5. (amended) Every instant in the list \<open>getOccurrencesInRange\<close> returns lies within
  \<open>[rangeStart, rangeEnd]\<close>, and when the occurrences of the pattern are a number other than
  0 the list is no longer than that number rounded up to a whole number, so no longer
  than a positive whole number of occurrences, and empty when the number is negative.
\<close>

theorem occurrences_in_range:
  assumes "getOccurrencesInRange startDate p rangeStart rangeEnd = Some found"
  shows "(\<forall>d\<in>set found. dateLeq rangeStart d \<and> dateLeq d rangeEnd)
         \<and> (\<forall>x. occurrences p = Some (Finite x) \<and> x \<noteq> 0 \<longrightarrow> int (length found) \<le> max 0 \<lceil>x\<rceil>)
         \<and> (occurrences p = Some NegInfinity \<longrightarrow> found = [])"
proof -
  have "found = [] \<or> (\<exists>cur. occurrencesLoop p rangeStart rangeEnd cur 0 [] = Some found)"
    using assms
    by (auto simp: getOccurrencesInRange_def bind_eq_Some_conv split: if_splits)
  then show ?thesis
  proof
    assume "found = []"
    then show ?thesis by simp
  next
    assume "\<exists>cur. occurrencesLoop p rangeStart rangeEnd cur 0 [] = Some found"
    then obtain cur where "occurrencesLoop p rangeStart rangeEnd cur 0 [] = Some found" ..
    from occurrencesLoop_inv [OF this] show ?thesis by auto
  qed
qed

lemma daily_advance:
  "frequency p = DAILY \<Longrightarrow> intervalOr1 p = Finite (real_of_int k)
     \<Longrightarrow> advance p (Instant t) = Some (Instant (t + k * msPerDay))"
  by (simp add: advance_def tvAddTime_Days del: tvAddTime.simps)

lemma daily_step:
  "frequency p = DAILY \<Longrightarrow> intervalOr1 p = Finite 1 \<Longrightarrow> endDate p = None
     \<Longrightarrow> \<not> occurrencesReached p 0
     \<Longrightarrow> getNextOccurrence (Instant t) p (Instant t) = Some (Some (Instant (t + msPerDay)))"
  unfolding getNextOccurrence_def
  using daily_advance [of p 1 t]
  by (subst nextOccurrenceLoop.simps) (simp add: pastEndDate_def msPerDay_def)

text \<open>The claim as stated fails: occurrences set to 0 count as not set, and cap nothing.\<close>

theorem zero_occurrences_counterexample:
  "getOccurrencesInRange (Instant 0) (everyDay\<lparr>occurrences := Some (Finite 0)\<rparr>) (Instant 0)
       (Instant 172800000)
     = Some [Instant 0, Instant 86400000, Instant 172800000]"
proof -
  let ?p = "everyDay\<lparr>occurrences := Some (Finite 0)\<rparr>"
  have c: "\<not> occurrencesReached ?p k" "\<not> pastEndDate ?p d" for k d
    by (simp_all add: everyDay_def occurrencesReached_def pastEndDate_def truthy_def)
  have n: "getNextOccurrence (Instant t) ?p (Instant t) = Some (Some (Instant (t + 86400000)))" for t
    using daily_step [of ?p t] c(1) [of 0]
    by (simp add: everyDay_def msPerDay_def intervalOr1_def truthy_def)
  have 3: "occurrencesLoop ?p (Instant 0) (Instant 172800000) (Instant 259200000) 3 found = Some found"
    for found
    by (subst occurrencesLoop.simps) simp
  have 2: "occurrencesLoop ?p (Instant 0) (Instant 172800000) (Instant 172800000) 2 found
             = Some (found @ [Instant 172800000])" for found
    by (subst occurrencesLoop.simps) (simp add: c n 3)
  have 1: "occurrencesLoop ?p (Instant 0) (Instant 172800000) (Instant 86400000) 1 found
             = Some (found @ [Instant 86400000, Instant 172800000])" for found
    by (subst occurrencesLoop.simps) (simp add: c n 2)
  have 0: "occurrencesLoop ?p (Instant 0) (Instant 172800000) (Instant 0) 0 []
             = Some [Instant 0, Instant 86400000, Instant 172800000]"
    by (subst occurrencesLoop.simps) (simp add: c n 1)
  show ?thesis
    using 0 by (simp add: getOccurrencesInRange_def everyDay_def)
qed

text \<open>Occurrences of a half let one instant through: the count 0 is below the half, the
  count 1 is not.\<close>

lemma half_occurrence:
  "getOccurrencesInRange (Instant 0) (everyDay\<lparr>occurrences := Some (Finite (1 / 2))\<rparr>) (Instant 0)
       (Instant 172800000)
     = Some [Instant 0]"
proof -
  let ?p = "everyDay\<lparr>occurrences := Some (Finite (1 / 2))\<rparr>"
  have o: "occurrencesReached ?p k = (1 \<le> k)" for k
    by (auto simp: everyDay_def occurrencesReached_def truthy_def)
  have n: "getNextOccurrence (Instant t) ?p (Instant t) = Some (Some (Instant (t + 86400000)))" for t
    using daily_step [of ?p t] o [of 0]
    by (simp add: everyDay_def msPerDay_def intervalOr1_def truthy_def)
  have c: "\<not> pastEndDate ?p d" for d
    by (simp add: everyDay_def pastEndDate_def)
  have 1: "occurrencesLoop ?p (Instant 0) (Instant 172800000) (Instant 86400000) 1 found
             = Some found" for found
    by (subst occurrencesLoop.simps) (simp add: o)
  have 0: "occurrencesLoop ?p (Instant 0) (Instant 172800000) (Instant 0) 0 [] = Some [Instant 0]"
    by (subst occurrencesLoop.simps) (simp add: o c n 1)
  show ?thesis
    using 0 by (simp add: getOccurrencesInRange_def everyDay_def)
qed

theorem occurrences_in_range_witness:
  "getOccurrencesInRange (Instant 0) (everyDay\<lparr>occurrences := Some (Finite 2)\<rparr>) (Instant 0)
       (Instant 432000000)
     = Some [Instant 0, Instant 86400000]
   \<and> dateLeq (Instant 0) (Instant 86400000) \<and> dateLeq (Instant 86400000) (Instant 432000000)
   \<and> int (length [Instant 0, Instant 86400000]) \<le> 2"
proof -
  let ?p = "everyDay\<lparr>occurrences := Some (Finite 2)\<rparr>"
  have o: "occurrencesReached ?p k = (2 \<le> k)" for k
    by (auto simp: everyDay_def occurrencesReached_def truthy_def)
  have c: "\<not> pastEndDate ?p d" for d
    by (simp add: everyDay_def pastEndDate_def)
  have n: "getNextOccurrence (Instant t) ?p (Instant t) = Some (Some (Instant (t + 86400000)))" for t
    using daily_step [of ?p t] o [of 0]
    by (simp add: everyDay_def msPerDay_def intervalOr1_def truthy_def)
  have 2: "occurrencesLoop ?p (Instant 0) (Instant 432000000) (Instant 172800000) 2 found
             = Some found" for found
    by (subst occurrencesLoop.simps) (simp add: o)
  have 1: "occurrencesLoop ?p (Instant 0) (Instant 432000000) (Instant 86400000) 1 found
             = Some (found @ [Instant 86400000])" for found
    by (subst occurrencesLoop.simps) (simp add: o c n 2)
  have 0: "occurrencesLoop ?p (Instant 0) (Instant 432000000) (Instant 0) 0 []
             = Some [Instant 0, Instant 86400000]"
    by (subst occurrencesLoop.simps) (simp add: o c n 1)
  have e: "getOccurrencesInRange (Instant 0) ?p (Instant 0) (Instant 432000000)
             = Some [Instant 0, Instant 86400000]"
    using 0 by (simp add: getOccurrencesInRange_def everyDay_def)
  have x: "occurrences ?p = Some (Finite 2)" by simp
  from occurrences_in_range [OF e] e x show ?thesis by simp
qed


section \<open>The next occurrence and the anchor\<close>



















text \<open>Each condition on the pattern is needed. With an interval of a half the setter drops
  the fraction and the date stays; with a frequency that is no member of the enumeration
  no step is made; with a day of the month of a half, the date of the month is set to 0,
  which is the last day of the month before: from the last day of February (here the 28th
  of February 1970) the walk comes back to it. In each case the anchor itself is returned.\<close>

lemma half_interval_returns_anchor:
  "getNextOccurrence (Instant 864000000) (everyDay\<lparr>interval := Some (Finite (1 / 2))\<rparr>)
       (Instant 432000000)
     = Some (Some (Instant 864000000))"
proof -
  have "ToIntegerOrInfinity (real_of_int (tvDate 864000000) + 1 / 2) = tvDate 864000000"
    using tvDate_positive [of 864000000] by (simp add: ToIntegerOrInfinity_def)
  then have "advance (everyDay\<lparr>interval := Some (Finite (1 / 2))\<rparr>) (Instant 864000000)
               = Some (Instant 864000000)"
    using tvSetDate_add [of 864000000 0]
    by (simp add: advance_def everyDay_def intervalOr1_def truthy_def)
  then show ?thesis
    unfolding getNextOccurrence_def
    by (subst nextOccurrenceLoop.simps)
       (simp add: pastEndDate_def occurrencesReached_def everyDay_def)
qed

lemma unlisted_frequency_returns_anchor:
  "getNextOccurrence (Instant 864000000) (everyDay\<lparr>frequency := ''daily''\<rparr>) (Instant 432000000)
     = Some (Some (Instant 864000000))"
proof -
  have "advance (everyDay\<lparr>frequency := ''daily''\<rparr>) (Instant 864000000) = Some (Instant 864000000)"
    by (simp add: advance_def DAILY_def WEEKLY_def MONTHLY_def YEARLY_def)
  then show ?thesis
    unfolding getNextOccurrence_def
    by (subst nextOccurrenceLoop.simps)
       (simp add: pastEndDate_def occurrencesReached_def everyDay_def)
qed

lemma half_day_of_month_returns_anchor:
  "getNextOccurrence (Instant 5011200000)
       \<lparr>frequency = MONTHLY, interval = Some (Finite 1), daysOfWeek = None,
        dayOfMonth = Some (Finite (1 / 2)), endDate = None, occurrences = None\<rparr>
       (Instant 432000000)
     = Some (Some (Instant 5011200000))"
proof -
  have "advance \<lparr>frequency = MONTHLY, interval = Some (Finite 1), daysOfWeek = None,
                 dayOfMonth = Some (Finite (1 / 2)), endDate = None, occurrences = None\<rparr>
          (Instant 5011200000) = Some (Instant 5011200000)"
    by code_simp
  then show ?thesis
    unfolding getNextOccurrence_def
    by (subst nextOccurrenceLoop.simps) (simp add: pastEndDate_def occurrencesReached_def)
qed

end
